theory Spec2Isabelle
  imports Main
begin

section \<open>Data model\<close>

text \<open>
  A cell of a table: SQL NULL (NaN or None in a dataframe), an integer, a text (dates are
  kept as text) or a boolean. Cells are compared by equality; a dataframe join and
  \<open>isin\<close> both treat two missing values as equal, which equality on \<open>Null\<close> gives.
\<close>

datatype val = Null | IntV int | StrV string | BoolV bool

text \<open>
  A dataframe, and equally a stored table: the column labels in order and the rows, every
  row holding one cell per label. A dataframe may carry a label more than once.
\<close>

record frame =
  columns :: "string list"
  rows :: "val list list"

datatype error =
    ValueError string
  | KeyError string
  | MergeError
  | DbError string

text \<open>What a run does to the outside: the statements it sends and the lines it prints.\<close>

datatype event =
    SrcRead string
  | DwhRead string
  | DwhAppend string
  | DwhExec string
  | Print string

text \<open>
  The two databases behind \<open>oltp_conn_string\<close> and \<open>warehouse_conn_string\<close>, as tables by
  physical name, the counter behind the serial column \<open>dm_sales.sale_id\<close>, and the events so
  far. The constraints of the DDL (NOT NULL, primary and foreign keys) are enforced by the
  database server and are not part of this model: a statement succeeds here when its tables
  and columns exist. Every statement is taken to be committed when it returns.
\<close>

record world =
  oltp :: "string \<rightharpoonup> frame"
  dwh :: "string \<rightharpoonup> frame"
  sale_seq :: nat
  trace :: "event list"

definition emit :: "event \<Rightarrow> world \<Rightarrow> world" where
  "emit e w = w\<lparr>trace := trace w @ [e]\<rparr>"

section \<open>config.py\<close>

definition oltp_tables :: "(string \<times> string) list" where
  "oltp_tables =
    [(''users'', ''tb_users''),
     (''payments'', ''tb_payments''),
     (''shippers'', ''tb_shippers''),
     (''ratings'', ''tb_ratings''),
     (''vouchers'', ''tb_vouchers''),
     (''orders'', ''tb_orders''),
     (''products'', ''tb_products''),
     (''product_category'', ''tb_product_category''),
     (''order_items'', ''tb_order_items'')]"

definition warehouse_tables :: "(string \<times> string) list" where
  "warehouse_tables =
    [(''users'', ''dim_user''),
     (''payments'', ''dim_payment''),
     (''shippers'', ''dim_shipper''),
     (''ratings'', ''dim_rating''),
     (''vouchers'', ''dim_voucher''),
     (''orders'', ''fact_orders''),
     (''product_category'', ''dim_product_category''),
     (''products'', ''dim_product''),
     (''order_items'', ''fact_order_items'')]"

definition dimension_columns :: "(string \<times> string list) list" where
  "dimension_columns =
    [(''dim_user'', [''user_id'', ''user_first_name'', ''user_last_name'', ''user_gender'',
                     ''user_address'', ''user_birthday'', ''user_join'']),
     (''dim_payment'', [''payment_id'', ''payment_name'', ''payment_status'']),
     (''dim_shipper'', [''shipper_id'', ''shipper_name'']),
     (''dim_rating'', [''rating_id'', ''rating_level'', ''rating_status'']),
     (''dim_voucher'', [''voucher_id'', ''voucher_name'', ''voucher_price'',
                        ''voucher_created'', ''user_id'']),
     (''fact_orders'', [''order_id'', ''order_date'', ''user_id'', ''payment_id'',
                        ''shipper_id'', ''order_price'', ''order_discount'', ''voucher_id'',
                        ''order_total'', ''rating_id'']),
     (''dim_product_category'', [''product_category_id'', ''product_category_name'']),
     (''dim_product'', [''product_id'', ''product_category_id'', ''product_name'',
                        ''product_created'', ''product_price'', ''product_discount'']),
     (''fact_order_items'', [''order_item_id'', ''order_id'', ''product_id'',
                             ''order_item_quantity'', ''product_discount'',
                             ''product_subdiscount'', ''product_price'',
                             ''product_subprice''])]"

text \<open>
  \<open>ddl_statements\<close>: each entry is a CREATE TABLE IF NOT EXISTS statement; what the model
  keeps of it is the table it creates and that table's columns, in the order declared.
\<close>

definition ddl_statements :: "(string \<times> string list) list" where
  "ddl_statements =
    [(''dim_user'', [''user_id'', ''user_first_name'', ''user_last_name'', ''user_gender'',
                     ''user_address'', ''user_birthday'', ''user_join'']),
     (''dim_payment'', [''payment_id'', ''payment_name'', ''payment_status'']),
     (''dim_shipper'', [''shipper_id'', ''shipper_name'']),
     (''dim_rating'', [''rating_id'', ''rating_level'', ''rating_status'']),
     (''dim_voucher'', [''voucher_id'', ''voucher_name'', ''voucher_price'',
                        ''voucher_created'', ''user_id'']),
     (''fact_orders'', [''order_id'', ''order_date'', ''user_id'', ''payment_id'',
                        ''shipper_id'', ''order_price'', ''order_discount'', ''voucher_id'',
                        ''order_total'', ''rating_id'']),
     (''dim_product_category'', [''product_category_id'', ''product_category_name'']),
     (''dim_product'', [''product_id'', ''product_category_id'', ''product_name'',
                        ''product_created'', ''product_price'', ''product_discount'']),
     (''fact_order_items'', [''order_item_id'', ''order_id'', ''product_id'',
                             ''order_item_quantity'', ''product_discount'',
                             ''product_subdiscount'', ''product_price'',
                             ''product_subprice''])]"

section \<open>Dataframe operations used by etl.py\<close>

text \<open>The positions at which a label occurs among the column labels.\<close>

definition positions :: "string \<Rightarrow> string list \<Rightarrow> nat list" where
  "positions c cs = filter (\<lambda>i. cs ! i = c) [0..<length cs]"

text \<open>A cell of a row by position; rows of a dataframe have a cell at every position.\<close>

definition cell_at :: "val list \<Rightarrow> nat \<Rightarrow> val" where
  "cell_at row p = (if p < length row then row ! p else Null)"

text \<open>
  \<open>df[cols]\<close> with a list of labels: the columns carrying each requested label, in the
  order requested; KeyError when a requested label is carried by no column.
\<close>

definition select_columns :: "frame \<Rightarrow> string list \<Rightarrow> error + frame" where
  "select_columns df cols =
     (case filter (\<lambda>c. c \<notin> set (columns df)) cols of
        c # _ \<Rightarrow> Inl (KeyError c)
      | [] \<Rightarrow>
          (let ps = concat (map (\<lambda>c. positions c (columns df)) cols)
           in Inr \<lparr>columns = map (\<lambda>p. columns df ! p) ps,
                   rows = map (\<lambda>r. map (cell_at r) ps) (rows df)\<rparr>))"

section \<open>etl.py: extraction and projection\<close>

definition extract_data :: "string \<Rightarrow> world \<Rightarrow> (error + frame) \<times> world" where
  "extract_data table_name w =
     (case map_of oltp_tables table_name of
        None \<Rightarrow>
          (Inl (ValueError (''Table name '' @ [CHR 0x27] @ table_name @ [CHR 0x27] @
                            '' not found in oltp_tables dictionary'')), w)
      | Some phys \<Rightarrow>
          (case oltp w phys of
             None \<Rightarrow> (Inl (DbError phys), emit (SrcRead phys) w)
           | Some df \<Rightarrow>
               (Inr df,
                emit (Print (''Extract Data '' @ phys @ '' Success''))
                  (emit (SrcRead phys) w))))"

definition transform_data :: "frame \<Rightarrow> string \<Rightarrow> world \<Rightarrow> (error + frame) \<times> world" where
  "transform_data df target_table w =
     (case (case map_of dimension_columns target_table of
              None \<Rightarrow> Inr df
            | Some cols \<Rightarrow> if cols \<noteq> [] then select_columns df cols else Inr df) of
        Inl e \<Rightarrow> (Inl e, w)
      | Inr df' \<Rightarrow>
          (Inr df', emit (Print (''Transform Data '' @ target_table @ '' Success'')) w))"

section \<open>Dataframe joins\<close>

text \<open>
  The position of a label that a join key or a single-label selection needs: KeyError when
  no column carries it, ValueError when several do.
\<close>

definition key_position :: "string \<Rightarrow> string list \<Rightarrow> error + nat" where
  "key_position k cs =
     (case positions k cs of
        [] \<Rightarrow> Inl (KeyError k)
      | [p] \<Rightarrow> Inr p
      | _ \<Rightarrow> Inl (ValueError (''The column label '' @ [CHR 0x27] @ k @ [CHR 0x27] @
                              '' is not unique.'')))"

definition drop_at :: "nat \<Rightarrow> 'a list \<Rightarrow> 'a list" where
  "drop_at j xs = take j xs @ drop (Suc j) xs"

text \<open>Whether the label at position \<open>i\<close> repeats an earlier one.\<close>

definition duplicated :: "string list \<Rightarrow> nat \<Rightarrow> bool" where
  "duplicated cs i = (cs ! i \<in> set (take i cs))"

text \<open>Suffixing made a label repeat that did not repeat before: the join refuses it.\<close>

definition suffix_clash :: "string list \<Rightarrow> string list \<Rightarrow> bool" where
  "suffix_clash old new =
     list_ex (\<lambda>i. duplicated new i \<and> \<not> duplicated old i) [0..<length new]"

datatype how = Inner | LeftJoin

text \<open>
  The rows one left row contributes: one per right row with an equal key, the right row
  without its key cell; under a left join, a left row without a partner is kept once, with
  missing values in the right columns.
\<close>

definition join_row :: "how \<Rightarrow> nat \<Rightarrow> nat \<Rightarrow> nat \<Rightarrow> val list \<Rightarrow> val list list \<Rightarrow> val list list" where
  "join_row h i j n l rs =
     (let ms = filter (\<lambda>r. cell_at r j = cell_at l i) rs
      in if ms = [] \<and> h = LeftJoin then [l @ replicate n Null]
         else map (\<lambda>r. l @ drop_at j r) ms)"

text \<open>
  \<open>left.merge(right, how=h, on=k)\<close> with the default suffixes. The key is looked up in the
  right frame first, then in the left. The key column appears once, at its place on the
  left; a label other than the key that both sides carry gets \<open>_x\<close> on the left and \<open>_y\<close>
  on the right. The rows are listed left row by left row; the theorems below speak of
  which rows there are, not of their order.
\<close>

definition merge :: "how \<Rightarrow> frame \<Rightarrow> frame \<Rightarrow> string \<Rightarrow> error + frame" where
  "merge h left right on =
     (case key_position on (columns right) of
        Inl e \<Rightarrow> Inl e
      | Inr j \<Rightarrow>
     (case key_position on (columns left) of
        Inl e \<Rightarrow> Inl e
      | Inr i \<Rightarrow>
          (let rcols = drop_at j (columns right);
               llabels = map (\<lambda>c. if c \<in> set rcols then c @ ''_x'' else c) (columns left);
               rlabels = map (\<lambda>c. if c \<in> set (columns left) then c @ ''_y'' else c) rcols
           in if suffix_clash (columns left) llabels \<or> suffix_clash rcols rlabels
              then Inl MergeError
              else Inr \<lparr>columns = llabels @ rlabels,
                        rows = concat (map (\<lambda>l. join_row h i j (length rcols) l (rows right))
                                           (rows left))\<rparr>)))"

text \<open>\<open>df.rename(columns={old: new}, inplace=True)\<close>.\<close>

definition rename :: "string \<Rightarrow> string \<Rightarrow> frame \<Rightarrow> frame" where
  "rename old new df = df\<lparr>columns := map (\<lambda>c. if c = old then new else c) (columns df)\<rparr>"

definition bindE :: "error + 'a \<Rightarrow> ('a \<Rightarrow> error + 'b) \<Rightarrow> error + 'b" where
  "bindE m f = (case m of Inl e \<Rightarrow> Inl e | Inr x \<Rightarrow> f x)"

section \<open>etl.py: fact assembly\<close>

text \<open>
  \<open>{table: extract_data(table) for table in oltp_tables.keys()}\<close>: every source table is
  read, in the order of the dictionary; the first failure ends the comprehension.
\<close>

fun extract_tables :: "string list \<Rightarrow> world \<Rightarrow> (error + (string \<times> frame) list) \<times> world" where
  "extract_tables [] w = (Inr [], w)"
| "extract_tables (t # ts) w =
     (case extract_data t w of
        (Inl e, w1) \<Rightarrow> (Inl e, w1)
      | (Inr df, w1) \<Rightarrow>
          (case extract_tables ts w1 of
             (Inl e, w2) \<Rightarrow> (Inl e, w2)
           | (Inr dfs, w2) \<Rightarrow> (Inr ((t, df) # dfs), w2)))"

definition lookup_frame :: "(string \<times> frame) list \<Rightarrow> string \<Rightarrow> error + frame" where
  "lookup_frame dataframes k =
     (case map_of dataframes k of None \<Rightarrow> Inl (KeyError k) | Some df \<Rightarrow> Inr df)"

definition declared_columns :: "string \<Rightarrow> error + string list" where
  "declared_columns t =
     (case map_of dimension_columns t of None \<Rightarrow> Inl (KeyError ''None'') | Some cols \<Rightarrow> Inr cols)"

text \<open>The five merges of \<open>transform_fact_orders\<close> and the renaming, before the projection.\<close>

definition join_fact_orders :: "(string \<times> frame) list \<Rightarrow> error + frame" where
  "join_fact_orders dataframes =
     bindE (lookup_frame dataframes ''orders'') (\<lambda>df_orders.
     bindE (lookup_frame dataframes ''users'') (\<lambda>users.
     bindE (merge Inner df_orders users ''user_id'') (\<lambda>df_orders.
     bindE (lookup_frame dataframes ''payments'') (\<lambda>payments.
     bindE (merge Inner df_orders payments ''payment_id'') (\<lambda>df_orders.
     bindE (lookup_frame dataframes ''shippers'') (\<lambda>shippers.
     bindE (merge Inner df_orders shippers ''shipper_id'') (\<lambda>df_orders.
     bindE (lookup_frame dataframes ''ratings'') (\<lambda>ratings.
     bindE (merge Inner df_orders ratings ''rating_id'') (\<lambda>df_orders.
     bindE (lookup_frame dataframes ''vouchers'') (\<lambda>vouchers.
     bindE (merge LeftJoin df_orders vouchers ''voucher_id'') (\<lambda>df_orders.
     Inr (rename ''user_id_x'' ''user_id'' df_orders))))))))))))"

definition assemble_fact_orders :: "(string \<times> frame) list \<Rightarrow> error + frame" where
  "assemble_fact_orders dataframes =
     bindE (join_fact_orders dataframes) (\<lambda>df_orders.
     bindE (declared_columns ''fact_orders'') (\<lambda>fact_orders_columns.
     select_columns df_orders fact_orders_columns))"

definition transform_fact_orders :: "world \<Rightarrow> (error + frame) \<times> world" where
  "transform_fact_orders w =
     (case extract_tables (map fst oltp_tables) w of
        (Inl e, w1) \<Rightarrow> (Inl e, w1)
      | (Inr dataframes, w1) \<Rightarrow> (assemble_fact_orders dataframes, w1))"

definition join_fact_order_items :: "(string \<times> frame) list \<Rightarrow> error + frame" where
  "join_fact_order_items dataframes =
     bindE (lookup_frame dataframes ''order_items'') (\<lambda>df_order_items.
     bindE (lookup_frame dataframes ''orders'') (\<lambda>orders.
     bindE (merge Inner df_order_items orders ''order_id'') (\<lambda>df_order_items.
     bindE (lookup_frame dataframes ''products'') (\<lambda>products.
     merge Inner df_order_items products ''product_id''))))"

definition assemble_fact_order_items :: "(string \<times> frame) list \<Rightarrow> error + frame" where
  "assemble_fact_order_items dataframes =
     bindE (join_fact_order_items dataframes) (\<lambda>df_order_items.
     bindE (declared_columns ''fact_order_items'') (\<lambda>fact_order_items_columns.
     select_columns df_order_items fact_order_items_columns))"

definition transform_fact_order_items :: "world \<Rightarrow> (error + frame) \<times> world" where
  "transform_fact_order_items w =
     (case extract_tables (map fst oltp_tables) w of
        (Inl e, w1) \<Rightarrow> (Inl e, w1)
      | (Inr dataframes, w1) \<Rightarrow> (assemble_fact_order_items dataframes, w1))"

section \<open>etl.py: loading\<close>

definition get_unique_key :: "string \<Rightarrow> error + string" where
  "get_unique_key table_name =
     (if table_name = ''dim_user'' then Inr ''user_id''
      else if table_name = ''dim_payment'' then Inr ''payment_id''
      else if table_name = ''dim_shipper'' then Inr ''shipper_id''
      else if table_name = ''dim_rating'' then Inr ''rating_id''
      else if table_name = ''dim_voucher'' then Inr ''voucher_id''
      else if table_name = ''fact_orders'' then Inr ''order_id''
      else if table_name = ''dim_product'' then Inr ''product_id''
      else if table_name = ''dim_product_category'' then Inr ''product_category_id''
      else if table_name = ''fact_order_items'' then Inr ''order_item_id''
      else Inl (ValueError ''Table name not recognized.''))"

text \<open>
  \<open>new_data[~new_data[unique_key].isin(existing_keys)]\<close>: the rows of the new data whose key
  cell is not among the existing keys, in their order, under the same labels.
\<close>

definition deduplicate_data :: "frame \<Rightarrow> frame \<Rightarrow> string \<Rightarrow> error + frame" where
  "deduplicate_data new_data existing_data unique_key =
     (case key_position unique_key (columns existing_data) of
        Inl e \<Rightarrow> Inl e
      | Inr q \<Rightarrow>
          (let existing_keys = map (\<lambda>r. cell_at r q) (rows existing_data)
           in case key_position unique_key (columns new_data) of
                Inl e \<Rightarrow> Inl e
              | Inr p \<Rightarrow>
                  Inr (new_data\<lparr>rows := filter (\<lambda>r. cell_at r p \<notin> set existing_keys)
                                                 (rows new_data)\<rparr>)))"

text \<open>\<open>SELECT unique_key FROM table_name\<close> on the warehouse.\<close>

definition read_key_column :: "string \<Rightarrow> string \<Rightarrow> world \<Rightarrow> (error + frame) \<times> world" where
  "read_key_column unique_key table_name w =
     (case dwh w table_name of
        None \<Rightarrow> (Inl (DbError table_name), emit (DwhRead table_name) w)
      | Some t \<Rightarrow>
          (case positions unique_key (columns t) of
             [] \<Rightarrow> (Inl (DbError unique_key), emit (DwhRead table_name) w)
           | p # _ \<Rightarrow>
               (Inr \<lparr>columns = [unique_key], rows = map (\<lambda>r. [cell_at r p]) (rows t)\<rparr>,
                emit (DwhRead table_name) w)))"

text \<open>A row of a dataframe laid out under the columns of a stored table, by label.\<close>

definition place :: "string list \<Rightarrow> string list \<Rightarrow> val list \<Rightarrow> val list" where
  "place dcols tcols r =
     map (\<lambda>c. case positions c dcols of [] \<Rightarrow> Null | p # _ \<Rightarrow> cell_at r p) tcols"

text \<open>
  \<open>df.to_sql(table_name, conn, index=False, if_exists='append', method='multi')\<close>: a table
  that does not exist is created from the dataframe; a dataframe without rows sends no
  INSERT; otherwise every label must name a column of the table, once, and the rows are
  added after the stored ones.
\<close>

definition to_sql :: "frame \<Rightarrow> string \<Rightarrow> world \<Rightarrow> (error + unit) \<times> world" where
  "to_sql df table_name w =
     (case dwh w table_name of
        None \<Rightarrow> (Inr (), emit (DwhAppend table_name) (w\<lparr>dwh := (dwh w)(table_name \<mapsto> df)\<rparr>))
      | Some t \<Rightarrow>
          if rows df = [] then (Inr (), emit (DwhAppend table_name) w)
          else if distinct (columns df) \<and> set (columns df) \<subseteq> set (columns t)
          then (Inr (),
                emit (DwhAppend table_name)
                  (w\<lparr>dwh := (dwh w)(table_name \<mapsto>
                        t\<lparr>rows := rows t @ map (place (columns df) (columns t)) (rows df)\<rparr>)\<rparr>))
          else (Inl (DbError table_name), w))"

definition load_data :: "frame \<Rightarrow> string \<Rightarrow> world \<Rightarrow> (error + unit) \<times> world" where
  "load_data df table_name w =
     (case get_unique_key table_name of
        Inl e \<Rightarrow> (Inl e, w)
      | Inr unique_key \<Rightarrow>
          (case read_key_column unique_key table_name w of
             (Inl e, w1) \<Rightarrow> (Inl e, w1)
           | (Inr existing_data, w1) \<Rightarrow>
               (case deduplicate_data df existing_data unique_key of
                  Inl e \<Rightarrow> (Inl e, w1)
                | Inr df' \<Rightarrow>
                    (case to_sql df' table_name w1 of
                       (Inl e, w2) \<Rightarrow> (Inl e, w2)
                     | (Inr u, w2) \<Rightarrow>
                         (Inr (),
                          emit (Print (''Load Data '' @ table_name @ '' Success'')) w2)))))"

section \<open>etl.py: schema creation and the mart\<close>

text \<open>One CREATE TABLE IF NOT EXISTS statement: an existing table is left as it is.\<close>

definition create_table_if_not_exists :: "string \<Rightarrow> string list \<Rightarrow> world \<Rightarrow> world" where
  "create_table_if_not_exists name cols w =
     emit (DwhExec (''CREATE TABLE IF NOT EXISTS '' @ name))
       (case dwh w name of
          None \<Rightarrow> w\<lparr>dwh := (dwh w)(name \<mapsto> \<lparr>columns = cols, rows = []\<rparr>)\<rparr>
        | Some t \<Rightarrow> w)"

fun create_each :: "(string \<times> string list) list \<Rightarrow> world \<Rightarrow> world" where
  "create_each [] w = w"
| "create_each ((name, cols) # ddls) w = create_each ddls (create_table_if_not_exists name cols w)"

definition create_tables :: "world \<Rightarrow> (error + unit) \<times> world" where
  "create_tables w = (Inr (), create_each ddl_statements w)"

text \<open>\<open>ddl_marts['dim_sales']\<close>: the columns of \<open>dm_sales\<close> as declared.\<close>

definition dm_sales_columns :: "string list" where
  "dm_sales_columns =
     [''sale_id'', ''order_id'', ''order_date'', ''user_id'', ''user_name'', ''order_item_id'',
      ''order_item_quantity'', ''product_id'', ''product_name'', ''product_category_id'',
      ''product_category_name'', ''payment_type'', ''shipper_name'', ''order_price'',
      ''order_discount'', ''voucher_name'', ''order_total'']"

text \<open>The column list of the INSERT in \<open>ddl_marts['insert_dm_sales']\<close>.\<close>

definition insert_columns :: "string list" where
  "insert_columns =
     [''order_id'', ''order_date'', ''user_id'', ''user_name'', ''payment_type'',
      ''shipper_name'', ''order_price'', ''order_discount'', ''voucher_name'', ''order_total'',
      ''order_item_id'', ''order_item_quantity'', ''product_id'', ''product_name'',
      ''product_category_id'', ''product_category_name'']"

text \<open>SQL equality in a join condition: not satisfied when either side is NULL.\<close>

definition sql_eq :: "val \<Rightarrow> val \<Rightarrow> bool" where
  "sql_eq a b = (a \<noteq> Null \<and> b \<noteq> Null \<and> a = b)"

fun digits :: "nat \<Rightarrow> string" where
  "digits n =
     (if n < 10 then [''0123456789'' ! n]
      else digits (n div 10) @ [''0123456789'' ! (n mod 10)])"

fun val_text :: "val \<Rightarrow> string" where
  "val_text Null = []"
| "val_text (IntV i) = (if i < 0 then CHR ''-'' # digits (nat (- i)) else digits (nat i))"
| "val_text (StrV s) = s"
| "val_text (BoolV b) = (if b then ''true'' else ''false'')"

text \<open>The SQL operator \<open>||\<close>: NULL when an operand is NULL.\<close>

definition sql_concat :: "val \<Rightarrow> val \<Rightarrow> val" where
  "sql_concat a b = (if a = Null \<or> b = Null then Null else StrV (val_text a @ val_text b))"

text \<open>A column of a stored table's row, by name.\<close>

definition field :: "frame \<Rightarrow> string \<Rightarrow> val list \<Rightarrow> val" where
  "field t c r = (case positions c (columns t) of [] \<Rightarrow> Null | p # _ \<Rightarrow> cell_at r p)"

text \<open>
  The SELECT of \<open>ddl_marts['insert_dm_sales']\<close>: seven inner joins from \<open>fact_orders\<close>, the
  values in the order of the INSERT's column list.
\<close>

definition dm_sales_select ::
  "frame \<Rightarrow> frame \<Rightarrow> frame \<Rightarrow> frame \<Rightarrow> frame \<Rightarrow> frame \<Rightarrow> frame \<Rightarrow> frame \<Rightarrow> val list list" where
  "dm_sales_select fo du dp ds dv foi dp2 dpc =
     [[field fo ''order_id'' a, field fo ''order_date'' a, field fo ''user_id'' a,
       sql_concat (sql_concat (field du ''user_first_name'' b) (StrV '' ''))
                  (field du ''user_last_name'' b),
       field dp ''payment_name'' c, field ds ''shipper_name'' d,
       field fo ''order_price'' a, field fo ''order_discount'' a,
       field dv ''voucher_name'' e, field fo ''order_total'' a,
       field foi ''order_item_id'' f, field foi ''order_item_quantity'' f,
       field dp2 ''product_id'' g, field dp2 ''product_name'' g,
       field dpc ''product_category_id'' h, field dpc ''product_category_name'' h].
      a \<leftarrow> rows fo,
      b \<leftarrow> rows du, sql_eq (field fo ''user_id'' a) (field du ''user_id'' b),
      c \<leftarrow> rows dp, sql_eq (field fo ''payment_id'' a) (field dp ''payment_id'' c),
      d \<leftarrow> rows ds, sql_eq (field fo ''shipper_id'' a) (field ds ''shipper_id'' d),
      e \<leftarrow> rows dv, sql_eq (field fo ''voucher_id'' a) (field dv ''voucher_id'' e),
      f \<leftarrow> rows foi, sql_eq (field fo ''order_id'' a) (field foi ''order_id'' f),
      g \<leftarrow> rows dp2, sql_eq (field foi ''product_id'' f) (field dp2 ''product_id'' g),
      h \<leftarrow> rows dpc,
        sql_eq (field dp2 ''product_category_id'' g) (field dpc ''product_category_id'' h)]"

text \<open>The tables the SELECT reads with the columns it names in each.\<close>

definition mart_sources :: "(string \<times> string list) list" where
  "mart_sources =
     [(''fact_orders'', [''order_id'', ''order_date'', ''user_id'', ''order_price'',
                         ''order_discount'', ''order_total'', ''payment_id'', ''shipper_id'',
                         ''voucher_id'']),
      (''dim_user'', [''user_first_name'', ''user_last_name'', ''user_id'']),
      (''dim_payment'', [''payment_name'', ''payment_id'']),
      (''dim_shipper'', [''shipper_name'', ''shipper_id'']),
      (''dim_voucher'', [''voucher_name'', ''voucher_id'']),
      (''fact_order_items'', [''order_item_id'', ''order_item_quantity'', ''order_id'',
                              ''product_id'']),
      (''dim_product'', [''product_id'', ''product_name'', ''product_category_id'']),
      (''dim_product_category'', [''product_category_id'', ''product_category_name''])]"

definition mart_sources_ok :: "(string \<rightharpoonup> frame) \<Rightarrow> bool" where
  "mart_sources_ok db =
     list_all (\<lambda>(t, cs). case db t of None \<Rightarrow> False
                                     | Some tb \<Rightarrow> list_all (\<lambda>c. c \<in> set (columns tb)) cs)
              mart_sources"

definition table_or_empty :: "(string \<rightharpoonup> frame) \<Rightarrow> string \<Rightarrow> frame" where
  "table_or_empty db t = (case db t of None \<Rightarrow> \<lparr>columns = [], rows = []\<rparr> | Some tb \<Rightarrow> tb)"

text \<open>The rows the join query yields on the warehouse as it stands.\<close>

definition mart_query :: "(string \<rightharpoonup> frame) \<Rightarrow> val list list" where
  "mart_query db =
     dm_sales_select (table_or_empty db ''fact_orders'') (table_or_empty db ''dim_user'')
       (table_or_empty db ''dim_payment'') (table_or_empty db ''dim_shipper'')
       (table_or_empty db ''dim_voucher'') (table_or_empty db ''fact_order_items'')
       (table_or_empty db ''dim_product'') (table_or_empty db ''dim_product_category'')"

text \<open>
  A selected row stored under the columns of \<open>dm_sales\<close>: the listed columns take the
  selected values, \<open>sale_id\<close> the next value of its sequence, any other column NULL.
\<close>

definition mart_row :: "string list \<Rightarrow> nat \<Rightarrow> val list \<Rightarrow> val list" where
  "mart_row tcols sale_id r =
     map (\<lambda>c. case positions c insert_columns of
                 p # _ \<Rightarrow> cell_at r p
               | [] \<Rightarrow> if c = ''sale_id'' then IntV (int sale_id) else Null) tcols"

definition number_rows :: "string list \<Rightarrow> nat \<Rightarrow> val list list \<Rightarrow> val list list" where
  "number_rows tcols seq rs = map (\<lambda>(k, r). mart_row tcols (seq + k + 1) r) (enumerate 0 rs)"

text \<open>
  \<open>ddl_marts['insert_dm_sales']\<close>: TRUNCATE, then INSERT of what the SELECT yields; TRUNCATE
  leaves the sequence of \<open>sale_id\<close> where it is.
\<close>

definition insert_dm_sales :: "world \<Rightarrow> (error + unit) \<times> world" where
  "insert_dm_sales w =
     (case dwh w ''dm_sales'' of
        None \<Rightarrow> (Inl (DbError ''dm_sales''), emit (DwhExec ''insert_dm_sales'') w)
      | Some t \<Rightarrow>
          if mart_sources_ok (dwh w) \<and> list_all (\<lambda>c. c \<in> set (columns t)) insert_columns
          then (let selected = mart_query (dwh w)
                in (Inr (),
                    emit (DwhExec ''insert_dm_sales'')
                      (w\<lparr>dwh := (dwh w)(''dm_sales'' \<mapsto>
                             t\<lparr>rows := number_rows (columns t) (sale_seq w) selected\<rparr>),
                         sale_seq := sale_seq w + length selected\<rparr>)))
          else (Inl (DbError ''insert_dm_sales''), emit (DwhExec ''insert_dm_sales'') w))"

definition create_dm_sales :: "world \<Rightarrow> world" where
  "create_dm_sales w =
     emit (DwhExec ''CREATE TABLE IF NOT EXISTS dm_sales'')
       (case dwh w ''dm_sales'' of
          None \<Rightarrow> w\<lparr>dwh := (dwh w)(''dm_sales'' \<mapsto> \<lparr>columns = dm_sales_columns, rows = []\<rparr>),
                    sale_seq := 0\<rparr>
        | Some t \<Rightarrow> w)"

definition create_and_insert_dm_sales :: "world \<Rightarrow> (error + unit) \<times> world" where
  "create_and_insert_dm_sales w =
     (case insert_dm_sales (create_dm_sales w) of
        (Inl e, w1) \<Rightarrow> (Inl e, w1)
      | (Inr u, w1) \<Rightarrow> (Inr (), emit (Print ''Data Mart Has Create Success'') w1))"

section \<open>etl.py: the orchestrator\<close>

text \<open>One pass of the loop of \<open>etl_process\<close> over \<open>warehouse_tables.items()\<close>.\<close>

definition process_table :: "string \<times> string \<Rightarrow> world \<Rightarrow> (error + unit) \<times> world" where
  "process_table item w =
     (case item of (dim_table, target_table) \<Rightarrow>
        if dim_table = ''fact_orders'' then
          (case transform_fact_orders w of
             (Inl e, w1) \<Rightarrow> (Inl e, w1)
           | (Inr df_fact_orders, w1) \<Rightarrow> load_data df_fact_orders target_table w1)
        else if dim_table = ''fact_order_items'' then
          (case transform_fact_order_items w of
             (Inl e, w1) \<Rightarrow> (Inl e, w1)
           | (Inr df_fact_order_items, w1) \<Rightarrow> load_data df_fact_order_items target_table w1)
        else
          (case extract_data dim_table w of
             (Inl e, w1) \<Rightarrow> (Inl e, w1)
           | (Inr df, w1) \<Rightarrow>
               (case transform_data df dim_table w1 of
                  (Inl e, w2) \<Rightarrow> (Inl e, w2)
                | (Inr transformed_df, w2) \<Rightarrow> load_data transformed_df target_table w2)))"

fun process_tables :: "(string \<times> string) list \<Rightarrow> world \<Rightarrow> (error + unit) \<times> world" where
  "process_tables [] w = (Inr (), w)"
| "process_tables (item # items) w =
     (case process_table item w of
        (Inl e, w1) \<Rightarrow> (Inl e, w1)
      | (Inr u, w1) \<Rightarrow> process_tables items w1)"

definition etl_process :: "world \<Rightarrow> (error + unit) \<times> world" where
  "etl_process w =
     (case create_tables w of
        (Inl e, w1) \<Rightarrow> (Inl e, w1)
      | (Inr u, w1) \<Rightarrow>
          (case process_tables warehouse_tables w1 of
             (Inl e, w2) \<Rightarrow> (Inl e, w2)
           | (Inr u, w2) \<Rightarrow> create_and_insert_dm_sales w2))"

section \<open>The stages of a run\<close>

text \<open>
  What the events say about the order of a run: a completed \<open>to_sql\<close> is the load of its
  table, the statement \<open>insert_dm_sales\<close> is the build of the mart.
\<close>

datatype stage = Load string | Mart

fun stage_of :: "event \<Rightarrow> stage list" where
  "stage_of (DwhAppend t) = [Load t]"
| "stage_of (DwhExec s) = (if s = ''insert_dm_sales'' then [Mart] else [])"
| "stage_of (SrcRead t) = []"
| "stage_of (DwhRead t) = []"
| "stage_of (Print s) = []"

definition stages :: "event list \<Rightarrow> stage list" where
  "stages evs = concat (map stage_of evs)"

text \<open>The order the loop of \<open>etl_process\<close> goes through, then the mart.\<close>

definition pipeline_stages :: "stage list" where
  "pipeline_stages = map (\<lambda>item. Load (snd item)) warehouse_tables @ [Mart]"

definition is_fact :: "string \<Rightarrow> bool" where
  "is_fact t = (t = ''fact_orders'' \<or> t = ''fact_order_items'')"

definition dimension_tables :: "string list" where
  "dimension_tables = filter (\<lambda>t. \<not> is_fact t) (map snd warehouse_tables)"

text \<open>
  The ordering as the specification words it: whenever a fact table is loaded, every
  dimension table has been loaded already; and the mart is built with both fact tables
  loaded. The first argument lists the tables loaded so far.
\<close>

fun facts_after_all_dimensions :: "string list \<Rightarrow> stage list \<Rightarrow> bool" where
  "facts_after_all_dimensions loaded [] = True"
| "facts_after_all_dimensions loaded (Load t # ss) =
     ((if is_fact t then list_all (\<lambda>d. d \<in> set loaded) dimension_tables else True)
      \<and> facts_after_all_dimensions (t # loaded) ss)"
| "facts_after_all_dimensions loaded (Mart # ss) =
     (list_all (\<lambda>f. f \<in> set loaded) [''fact_orders'', ''fact_order_items'']
      \<and> facts_after_all_dimensions loaded ss)"

text \<open>The FOREIGN KEY clauses of \<open>ddl_statements\<close>: the tables each table references.\<close>

definition foreign_keys :: "(string \<times> string list) list" where
  "foreign_keys =
     [(''fact_orders'', [''dim_user'', ''dim_payment'', ''dim_shipper'', ''dim_voucher'',
                         ''dim_rating'']),
      (''dim_product'', [''dim_product_category'']),
      (''fact_order_items'', [''dim_product'', ''fact_orders''])]"

definition referenced :: "string \<Rightarrow> string list" where
  "referenced t = (case map_of foreign_keys t of None \<Rightarrow> [] | Some ts \<Rightarrow> ts)"

text \<open>
  The ordering the code keeps: a table is loaded with every table it references loaded
  already, and the mart is built with all nine tables loaded.
\<close>

fun loads_after_references :: "string list \<Rightarrow> stage list \<Rightarrow> bool" where
  "loads_after_references loaded [] = True"
| "loads_after_references loaded (Load t # ss) =
     (list_all (\<lambda>d. d \<in> set loaded) (referenced t)
      \<and> loads_after_references (t # loaded) ss)"
| "loads_after_references loaded (Mart # ss) =
     (list_all (\<lambda>t. t \<in> set loaded) (map snd warehouse_tables)
      \<and> loads_after_references loaded ss)"

section \<open>The loader's contract in the words of the specification\<close>

text \<open>
  The key values a stored table already holds, and the candidate rows whose key value is
  not among them: the subset the incremental loader is to append.
\<close>

definition stored_keys :: "frame \<Rightarrow> string \<Rightarrow> val list" where
  "stored_keys tb k = map (field tb k) (rows tb)"

definition new_rows :: "frame \<Rightarrow> frame \<Rightarrow> string \<Rightarrow> val list list" where
  "new_rows df tb k = filter (\<lambda>r. field df k r \<notin> set (stored_keys tb k)) (rows df)"

text \<open>
  A loop item is settled when its source table can be read, its destination exists with
  its key column, and no row of the source has a key the destination does not hold yet:
  the deduplication step then leaves nothing to append.
\<close>

definition settled :: "world \<Rightarrow> string \<times> string \<Rightarrow> bool" where
  "settled w item =
     (case map_of oltp_tables (fst item) of
        None \<Rightarrow> False
      | Some phys \<Rightarrow>
     (case oltp w phys of
        None \<Rightarrow> False
      | Some df \<Rightarrow>
     (case get_unique_key (snd item) of
        Inl e \<Rightarrow> False
      | Inr k \<Rightarrow>
     (case dwh w (snd item) of
        None \<Rightarrow> False
      | Some tb \<Rightarrow>
     (case key_position k (columns df) of
        Inl e \<Rightarrow> False
      | Inr p \<Rightarrow> positions k (columns tb) \<noteq> [] \<and> new_rows df tb k = [])))))"

text \<open>
  The loop items that take the last branch of the loop and pass \<open>transform_data\<close>
  unchanged: the logical name is neither the name of a fact table nor a key of
  \<open>dimension_columns\<close>.
\<close>

definition passes_through :: "string \<Rightarrow> bool" where
  "passes_through d =
     (d \<noteq> ''fact_orders'' \<and> d \<noteq> ''fact_order_items'' \<and> map_of dimension_columns d = None)"

section \<open>Fact assembly in the words of the specification\<close>






section \<open>Example worlds\<close>

text \<open>
  The end-to-end scenario: one user, one payment, one shipper, one rating, no voucher, one
  order linking them with no voucher reference, one product with its category, and one
  order item linking that order and product. The warehouse is empty before the run.
\<close>

definition seed_users :: frame where
  "seed_users =
     \<lparr>columns = [''user_id'', ''user_first_name'', ''user_last_name'', ''user_gender'',
                 ''user_address'', ''user_birthday'', ''user_join''],
      rows = [[IntV 1, StrV ''Ana'', StrV ''Lee'', StrV ''F'', Null, StrV ''1990-01-01'',
               StrV ''2020-01-01'']]\<rparr>"

definition seed_payments :: frame where
  "seed_payments =
     \<lparr>columns = [''payment_id'', ''payment_name'', ''payment_status''],
      rows = [[IntV 2, StrV ''card'', BoolV True]]\<rparr>"

definition seed_shippers :: frame where
  "seed_shippers = \<lparr>columns = [''shipper_id'', ''shipper_name''], rows = [[IntV 3, StrV ''jne'']]\<rparr>"

definition seed_ratings :: frame where
  "seed_ratings =
     \<lparr>columns = [''rating_id'', ''rating_level'', ''rating_status''],
      rows = [[IntV 4, IntV 5, StrV ''good'']]\<rparr>"

definition seed_vouchers :: frame where
  "seed_vouchers =
     \<lparr>columns = [''voucher_id'', ''voucher_name'', ''voucher_price'', ''voucher_created'',
                 ''user_id''],
      rows = []\<rparr>"

definition seed_orders :: frame where
  "seed_orders =
     \<lparr>columns = [''order_id'', ''order_date'', ''user_id'', ''payment_id'', ''shipper_id'',
                 ''order_price'', ''order_discount'', ''voucher_id'', ''order_total'',
                 ''rating_id''],
      rows = [[IntV 10, StrV ''2024-01-01'', IntV 1, IntV 2, IntV 3, IntV 100, Null, Null,
               IntV 100, IntV 4]]\<rparr>"

definition seed_products :: frame where
  "seed_products =
     \<lparr>columns = [''product_id'', ''product_category_id'', ''product_name'',
                 ''product_created'', ''product_price'', ''product_discount''],
      rows = [[IntV 7, IntV 8, StrV ''pen'', StrV ''2023-01-01'', IntV 50, Null]]\<rparr>"

definition seed_product_category :: frame where
  "seed_product_category =
     \<lparr>columns = [''product_category_id'', ''product_category_name''],
      rows = [[IntV 8, StrV ''office'']]\<rparr>"

definition seed_order_items :: frame where
  "seed_order_items =
     \<lparr>columns = [''order_item_id'', ''order_id'', ''product_id'', ''order_item_quantity'',
                 ''product_discount'', ''product_subdiscount'', ''product_price'',
                 ''product_subprice''],
      rows = [[IntV 20, IntV 10, IntV 7, IntV 2, Null, Null, IntV 50, IntV 100]]\<rparr>"

definition seed_source :: "string \<rightharpoonup> frame" where
  "seed_source =
     [''tb_users'' \<mapsto> seed_users, ''tb_payments'' \<mapsto> seed_payments,
      ''tb_shippers'' \<mapsto> seed_shippers, ''tb_ratings'' \<mapsto> seed_ratings,
      ''tb_vouchers'' \<mapsto> seed_vouchers, ''tb_orders'' \<mapsto> seed_orders,
      ''tb_products'' \<mapsto> seed_products, ''tb_product_category'' \<mapsto> seed_product_category,
      ''tb_order_items'' \<mapsto> seed_order_items]"

definition seed_world :: world where
  "seed_world = \<lparr>oltp = seed_source, dwh = Map.empty, sale_seq = 0, trace = []\<rparr>"

text \<open>The dictionary of extracted frames on the seeded source, and the joined frames.\<close>

definition seed_frames :: "(string \<times> frame) list" where
  "seed_frames =
     [(''users'', seed_users), (''payments'', seed_payments), (''shippers'', seed_shippers),
      (''ratings'', seed_ratings), (''vouchers'', seed_vouchers), (''orders'', seed_orders),
      (''products'', seed_products), (''product_category'', seed_product_category),
      (''order_items'', seed_order_items)]"

definition seed_joined_orders :: frame where
  "seed_joined_orders =
     \<lparr>columns =
        [''order_id'', ''order_date'', ''user_id'', ''payment_id'', ''shipper_id'',
         ''order_price'', ''order_discount'', ''voucher_id'', ''order_total'', ''rating_id'',
         ''user_first_name'', ''user_last_name'', ''user_gender'', ''user_address'',
         ''user_birthday'', ''user_join'', ''payment_name'', ''payment_status'',
         ''shipper_name'', ''rating_level'', ''rating_status'', ''voucher_name'',
         ''voucher_price'', ''voucher_created'', ''user_id_y''],
      rows =
        [[IntV 10, StrV ''2024-01-01'', IntV 1, IntV 2, IntV 3, IntV 100, Null, Null,
          IntV 100, IntV 4, StrV ''Ana'', StrV ''Lee'', StrV ''F'', Null, StrV ''1990-01-01'',
          StrV ''2020-01-01'', StrV ''card'', BoolV True, StrV ''jne'', IntV 5, StrV ''good'',
          Null, Null, Null, Null]]\<rparr>"

definition seed_joined_order_items :: frame where
  "seed_joined_order_items =
     \<lparr>columns =
        [''order_item_id'', ''order_id'', ''product_id'', ''order_item_quantity'',
         ''product_discount_x'', ''product_subdiscount'', ''product_price_x'',
         ''product_subprice'', ''order_date'', ''user_id'', ''payment_id'', ''shipper_id'',
         ''order_price'', ''order_discount'', ''voucher_id'', ''order_total'', ''rating_id'',
         ''product_category_id'', ''product_name'', ''product_created'', ''product_price_y'',
         ''product_discount_y''],
      rows =
        [[IntV 20, IntV 10, IntV 7, IntV 2, Null, Null, IntV 50, IntV 100,
          StrV ''2024-01-01'', IntV 1, IntV 2, IntV 3, IntV 100, Null, Null, IntV 100,
          IntV 4, IntV 8, StrV ''pen'', StrV ''2023-01-01'', IntV 50, Null]]\<rparr>"

text \<open>
  A warehouse that already holds user 1, and a candidate dataframe with user 1 under
  another name and a new user 5.
\<close>

definition loaded_world :: world where
  "loaded_world =
     \<lparr>oltp = Map.empty, dwh = [''dim_user'' \<mapsto> seed_users], sale_seq = 0, trace = []\<rparr>"

definition two_users :: frame where
  "two_users =
     \<lparr>columns = [''user_id'', ''user_first_name'', ''user_last_name'', ''user_gender'',
                 ''user_address'', ''user_birthday'', ''user_join''],
      rows = [[IntV 1, StrV ''Bob'', StrV ''Lee'', StrV ''M'', Null, StrV ''1990-01-01'',
               StrV ''2020-01-01''],
              [IntV 5, StrV ''Cy'', StrV ''Tan'', StrV ''M'', Null, StrV ''1991-02-02'',
               StrV ''2021-01-01'']]\<rparr>"

text \<open>The seeded scenario with one voucher, which the order uses.\<close>

definition voucher_vouchers :: frame where
  "voucher_vouchers =
     \<lparr>columns = [''voucher_id'', ''voucher_name'', ''voucher_price'', ''voucher_created'',
                 ''user_id''],
      rows = [[IntV 9, StrV ''new'', IntV 5, StrV ''2023-12-01'', IntV 1]]\<rparr>"

definition voucher_orders :: frame where
  "voucher_orders =
     \<lparr>columns = [''order_id'', ''order_date'', ''user_id'', ''payment_id'', ''shipper_id'',
                 ''order_price'', ''order_discount'', ''voucher_id'', ''order_total'',
                 ''rating_id''],
      rows = [[IntV 10, StrV ''2024-01-01'', IntV 1, IntV 2, IntV 3, IntV 100, Null, IntV 9,
               IntV 95, IntV 4]]\<rparr>"

definition voucher_world :: world where
  "voucher_world =
     \<lparr>oltp = seed_source(''tb_vouchers'' \<mapsto> voucher_vouchers, ''tb_orders'' \<mapsto> voucher_orders),
      dwh = Map.empty, sale_seq = 0, trace = []\<rparr>"




text \<open>
  A users frame as a wider source table would give it: one more column than \<open>dim_user\<close>
  declares, and the columns in another order.
\<close>

definition wide_users :: frame where
  "wide_users =
     \<lparr>columns = [''user_phone'', ''user_last_name'', ''user_first_name'', ''user_id'',
                 ''user_gender'', ''user_join'', ''user_birthday'', ''user_address''],
      rows = [[StrV ''555'', StrV ''Lee'', StrV ''Ana'', IntV 1, StrV ''F'',
               StrV ''2020-01-01'', StrV ''1990-01-01'', Null]]\<rparr>"

definition projected_users :: frame where
  "projected_users =
     \<lparr>columns = [''user_id'', ''user_first_name'', ''user_last_name'', ''user_gender'',
                 ''user_address'', ''user_birthday'', ''user_join''],
      rows = [[IntV 1, StrV ''Ana'', StrV ''Lee'', StrV ''F'', Null, StrV ''1990-01-01'',
               StrV ''2020-01-01'']]\<rparr>"

text \<open>
  The seeded scenario with order items that leave price and discount to the product, so
  that the join of \<open>transform_fact_order_items\<close> brings each declared column in once.
\<close>

definition slim_order_items :: frame where
  "slim_order_items =
     \<lparr>columns = [''order_item_id'', ''order_id'', ''product_id'', ''order_item_quantity'',
                 ''product_subdiscount'', ''product_subprice''],
      rows = [[IntV 20, IntV 10, IntV 7, IntV 2, Null, IntV 100]]\<rparr>"

definition items_frames :: "(string \<times> frame) list" where
  "items_frames =
     [(''users'', seed_users), (''payments'', seed_payments), (''shippers'', seed_shippers),
      (''ratings'', seed_ratings), (''vouchers'', seed_vouchers), (''orders'', seed_orders),
      (''products'', seed_products), (''product_category'', seed_product_category),
      (''order_items'', slim_order_items)]"

definition items_world :: world where
  "items_world =
     \<lparr>oltp = seed_source(''tb_order_items'' \<mapsto> slim_order_items), dwh = Map.empty,
      sale_seq = 0, trace = []\<rparr>"

definition items_joined :: frame where
  "items_joined =
     \<lparr>columns =
        [''order_item_id'', ''order_id'', ''product_id'', ''order_item_quantity'',
         ''product_subdiscount'', ''product_subprice'', ''order_date'', ''user_id'',
         ''payment_id'', ''shipper_id'', ''order_price'', ''order_discount'', ''voucher_id'',
         ''order_total'', ''rating_id'', ''product_category_id'', ''product_name'',
         ''product_created'', ''product_price'', ''product_discount''],
      rows =
        [[IntV 20, IntV 10, IntV 7, IntV 2, Null, IntV 100, StrV ''2024-01-01'', IntV 1,
          IntV 2, IntV 3, IntV 100, Null, Null, IntV 100, IntV 4, IntV 8, StrV ''pen'',
          StrV ''2023-01-01'', IntV 50, Null]]\<rparr>"

definition items_fact :: frame where
  "items_fact =
     \<lparr>columns = [''order_item_id'', ''order_id'', ''product_id'', ''order_item_quantity'',
                 ''product_discount'', ''product_subdiscount'', ''product_price'',
                 ''product_subprice''],
      rows = [[IntV 20, IntV 10, IntV 7, IntV 2, Null, Null, IntV 50, IntV 100]]\<rparr>"

section \<open>Extraction\<close>

text \<open>
  C4. For a logical table name that is not a key of \<open>oltp_tables\<close>, \<open>extract_data\<close> raises the
  ValueError naming the table and leaves the world as it was, so no read of the source is
  issued; for a name that is a key, it reads the mapped physical table and returns that
  table's stored contents whole.
\<close>

theorem extract_data_contract:
  "(map_of oltp_tables n = None \<longrightarrow>
      extract_data n w =
        (Inl (ValueError (''Table name '' @ [CHR 0x27] @ n @ [CHR 0x27] @
                          '' not found in oltp_tables dictionary'')), w))
   \<and> (\<forall>phys df. map_of oltp_tables n = Some phys \<longrightarrow> oltp w phys = Some df \<longrightarrow>
        fst (extract_data n w) = Inr df
        \<and> trace (snd (extract_data n w)) =
            trace w @ [SrcRead phys, Print (''Extract Data '' @ phys @ '' Success'')]
        \<and> oltp (snd (extract_data n w)) = oltp w
        \<and> dwh (snd (extract_data n w)) = dwh w)"
  by (simp add: extract_data_def emit_def)

theorem extract_data_contract_witness:
  "map_of oltp_tables ''customers'' = None
   \<and> extract_data ''customers'' seed_world =
       (Inl (ValueError ''Table name 'customers' not found in oltp_tables dictionary''),
        seed_world)
   \<and> map_of oltp_tables ''users'' = Some ''tb_users''
   \<and> oltp seed_world ''tb_users'' = Some seed_users
   \<and> fst (extract_data ''users'' seed_world) = Inr seed_users
   \<and> trace (snd (extract_data ''users'' seed_world)) =
       [SrcRead ''tb_users'', Print ''Extract Data tb_users Success'']"
  using extract_data_contract [of "''customers''" seed_world]
    extract_data_contract [of "''users''" seed_world]
  by (simp add: oltp_tables_def seed_world_def seed_source_def)

section \<open>Projection\<close>

text \<open>
  C10. For every dataframe and every target name that is not a key of
  \<open>dimension_columns\<close>, \<open>transform_data\<close> returns the dataframe it was given: nothing is
  projected and nothing is raised; it only prints its line.
\<close>

theorem transform_data_unknown_target:
  "map_of dimension_columns target_table = None \<Longrightarrow>
     transform_data df target_table w =
       (Inr df, emit (Print (''Transform Data '' @ target_table @ '' Success'')) w)"
  by (simp add: transform_data_def)

theorem transform_data_unknown_target_witness:
  "map_of dimension_columns ''orders'' = None
   \<and> map_of dimension_columns ''order_items'' = None
   \<and> fst (transform_data seed_orders ''orders'' seed_world) = Inr seed_orders
   \<and> fst (transform_data seed_order_items ''order_items'' seed_world) = Inr seed_order_items"
proof -
  have a: "map_of dimension_columns ''orders'' = None"
    by (simp add: dimension_columns_def)
  have b: "map_of dimension_columns ''order_items'' = None"
    by (simp add: dimension_columns_def)
  show ?thesis
    using a b transform_data_unknown_target [OF a, of seed_orders seed_world]
      transform_data_unknown_target [OF b, of seed_order_items seed_world]
    by simp
qed

section \<open>The orchestrator's choice of transform\<close>

text \<open>
  C1. The loop of \<open>etl_process\<close> compares the key of \<open>warehouse_tables\<close>, the logical source
  name, with the names of the fact tables. No key is one of those names, so for
  \<open>fact_orders\<close> and \<open>fact_order_items\<close> the loop takes its last branch: the source table
  is extracted, passed through \<open>transform_data\<close> under the logical name and loaded. In the
  seeded scenario the whole run reads each source table once; fact assembly would read all
  nine again for each fact table.
\<close>

theorem fact_tables_take_projection_branch:
  "process_table (''orders'', ''fact_orders'') w =
     (case extract_data ''orders'' w of
        (Inl e, w1) \<Rightarrow> (Inl e, w1)
      | (Inr df, w1) \<Rightarrow>
          (case transform_data df ''orders'' w1 of
             (Inl e, w2) \<Rightarrow> (Inl e, w2)
           | (Inr transformed_df, w2) \<Rightarrow> load_data transformed_df ''fact_orders'' w2))
   \<and> process_table (''order_items'', ''fact_order_items'') w =
     (case extract_data ''order_items'' w of
        (Inl e, w1) \<Rightarrow> (Inl e, w1)
      | (Inr df, w1) \<Rightarrow>
          (case transform_data df ''order_items'' w1 of
             (Inl e, w2) \<Rightarrow> (Inl e, w2)
           | (Inr transformed_df, w2) \<Rightarrow> load_data transformed_df ''fact_order_items'' w2))
   \<and> filter (\<lambda>item. fst item = ''fact_orders'' \<or> fst item = ''fact_order_items'')
        warehouse_tables = []
   \<and> filter (\<lambda>e. case e of SrcRead t \<Rightarrow> True | _ \<Rightarrow> False) (trace (snd (etl_process seed_world)))
       = [SrcRead ''tb_users'', SrcRead ''tb_payments'', SrcRead ''tb_shippers'',
          SrcRead ''tb_ratings'', SrcRead ''tb_vouchers'', SrcRead ''tb_orders'',
          SrcRead ''tb_product_category'', SrcRead ''tb_products'', SrcRead ''tb_order_items'']"
proof -
  have a: "process_table (''orders'', ''fact_orders'') w =
     (case extract_data ''orders'' w of
        (Inl e, w1) \<Rightarrow> (Inl e, w1)
      | (Inr df, w1) \<Rightarrow>
          (case transform_data df ''orders'' w1 of
             (Inl e, w2) \<Rightarrow> (Inl e, w2)
           | (Inr transformed_df, w2) \<Rightarrow> load_data transformed_df ''fact_orders'' w2))"
    by (simp add: process_table_def)
  have b: "process_table (''order_items'', ''fact_order_items'') w =
     (case extract_data ''order_items'' w of
        (Inl e, w1) \<Rightarrow> (Inl e, w1)
      | (Inr df, w1) \<Rightarrow>
          (case transform_data df ''order_items'' w1 of
             (Inl e, w2) \<Rightarrow> (Inl e, w2)
           | (Inr transformed_df, w2) \<Rightarrow> load_data transformed_df ''fact_order_items'' w2))"
    by (simp add: process_table_def)
  have c: "filter (\<lambda>item. fst item = ''fact_orders'' \<or> fst item = ''fact_order_items'')
        warehouse_tables = []"
    by (simp add: warehouse_tables_def)
  have d: "filter (\<lambda>e. case e of SrcRead t \<Rightarrow> True | _ \<Rightarrow> False)
             (trace (snd (etl_process seed_world)))
       = [SrcRead ''tb_users'', SrcRead ''tb_payments'', SrcRead ''tb_shippers'',
          SrcRead ''tb_ratings'', SrcRead ''tb_vouchers'', SrcRead ''tb_orders'',
          SrcRead ''tb_product_category'', SrcRead ''tb_products'', SrcRead ''tb_order_items'']"
    by code_simp
  from a b c d show ?thesis by blast
qed

section \<open>The end-to-end scenario\<close>

text \<open>
  C2. On the seeded source one run succeeds and leaves \<open>fact_orders\<close> with the one order,
  its \<open>voucher_id\<close> null, and \<open>fact_order_items\<close> with the one order item. The mart query
  joins \<open>dim_voucher\<close> with an inner join on \<open>voucher_id\<close>, so the order without a voucher
  has no partner there and \<open>dm_sales\<close> is left with no row.
\<close>

theorem seed_run_mart_empty:
  "fst (etl_process seed_world) = Inr ()
   \<and> map_option rows (dwh (snd (etl_process seed_world)) ''fact_orders'') =
       Some [[IntV 10, StrV ''2024-01-01'', IntV 1, IntV 2, IntV 3, IntV 100, Null, Null,
              IntV 100, IntV 4]]
   \<and> map_option rows (dwh (snd (etl_process seed_world)) ''fact_order_items'') =
       Some [[IntV 20, IntV 10, IntV 7, IntV 2, Null, Null, IntV 50, IntV 100]]
   \<and> map_option rows (dwh (snd (etl_process seed_world)) ''dm_sales'') = Some []"
proof -
  have a: "fst (etl_process seed_world) = Inr ()"
    by code_simp
  have b: "map_option rows (dwh (snd (etl_process seed_world)) ''fact_orders'') =
       Some [[IntV 10, StrV ''2024-01-01'', IntV 1, IntV 2, IntV 3, IntV 100, Null, Null,
              IntV 100, IntV 4]]"
    by code_simp
  have c: "map_option rows (dwh (snd (etl_process seed_world)) ''fact_order_items'') =
       Some [[IntV 20, IntV 10, IntV 7, IntV 2, Null, Null, IntV 50, IntV 100]]"
    by code_simp
  have d: "map_option rows (dwh (snd (etl_process seed_world)) ''dm_sales'') = Some []"
    by code_simp
  from a b c d show ?thesis by blast
qed

section \<open>Labels and positions\<close>

lemma positions_snoc:
  "positions c (cs @ [x]) = positions c cs @ (if x = c then [length cs] else [])"
  by (auto simp: positions_def nth_append intro!: filter_cong)

lemma set_positions: "set (positions c cs) = {i. i < length cs \<and> cs ! i = c}"
  by (auto simp: positions_def)

lemma length_positions: "length (positions c cs) = count_list cs c"
proof (induction cs rule: rev_induct)
  case Nil
  then show ?case by (simp add: positions_def)
next
  case (snoc x xs)
  then show ?case by (simp add: positions_snoc)
qed


lemma count_list_distinct: "distinct cs \<Longrightarrow> c \<in> set cs \<Longrightarrow> count_list cs c = 1"
  by (induction cs) auto

lemma positions_distinct:
  assumes "distinct cs" "c \<in> set cs"
  shows "\<exists>p. positions c cs = [p] \<and> p < length cs \<and> cs ! p = c"
proof -
  have "length (positions c cs) = 1"
    using assms by (simp add: length_positions count_list_distinct)
  then obtain p where p: "positions c cs = [p]"
    by (cases "positions c cs") auto
  have "p \<in> set (positions c cs)" unfolding p by simp
  then have "p < length cs \<and> cs ! p = c" unfolding set_positions by simp
  then show ?thesis using p by simp
qed

lemma select_columns_labels:
  assumes "distinct (columns df)" "select_columns df cols = Inr out"
  shows "columns out = cols"
proof -
  have none: "filter (\<lambda>c. c \<notin> set (columns df)) cols = []"
    using assms(2) by (auto simp: select_columns_def split: list.splits)
  then have mem: "\<forall>c \<in> set cols. c \<in> set (columns df)"
    by (auto simp: filter_empty_conv)
  have "map (\<lambda>p. columns df ! p) (concat (map (\<lambda>c. positions c (columns df)) cs)) = cs"
    if "set cs \<subseteq> set (columns df)" for cs
    using that
  proof (induction cs)
    case Nil then show ?case by simp
  next
    case (Cons c cs)
    obtain p where "positions c (columns df) = [p]" "columns df ! p = c"
      using positions_distinct [OF assms(1), of c] Cons.prems by auto
    then show ?case using Cons by simp
  qed
  moreover have "set cols \<subseteq> set (columns df)"
    using mem by auto
  ultimately have "map (\<lambda>p. columns df ! p) (concat (map (\<lambda>c. positions c (columns df)) cols)) = cols"
    by blast
  then show ?thesis
    using assms(2) none by (auto simp: select_columns_def Let_def)
qed

lemma select_columns_missing:
  assumes "\<not> set cols \<subseteq> set (columns df)"
  shows "\<exists>c. select_columns df cols = Inl (KeyError c) \<and> c \<in> set cols \<and> c \<notin> set (columns df)"
proof -
  have "filter (\<lambda>c. c \<notin> set (columns df)) cols \<noteq> []"
    using assms by (auto simp: filter_empty_conv)
  then obtain c cs where f: "filter (\<lambda>c. c \<notin> set (columns df)) cols = c # cs"
    by (cases "filter (\<lambda>c. c \<notin> set (columns df)) cols") auto
  then have "c \<in> set (filter (\<lambda>c. c \<notin> set (columns df)) cols)" by simp
  then have "c \<in> set cols \<and> c \<notin> set (columns df)" by simp
  moreover have "select_columns df cols = Inl (KeyError c)"
    using f by (simp add: select_columns_def)
  ultimately show ?thesis by blast
qed

lemma declared_nonempty: "map_of dimension_columns t = Some cols \<Longrightarrow> cols \<noteq> []"
  by (auto simp: dimension_columns_def split: if_splits)

section \<open>Output columns of the transforms\<close>

lemma fst_transform_fact_orders:
  "fst (extract_tables (map fst oltp_tables) w) = Inr dfs \<Longrightarrow>
     fst (transform_fact_orders w) = assemble_fact_orders dfs"
  by (auto simp: transform_fact_orders_def split: prod.splits sum.splits)

lemma fst_transform_fact_order_items:
  "fst (extract_tables (map fst oltp_tables) w) = Inr dfs \<Longrightarrow>
     fst (transform_fact_order_items w) = assemble_fact_order_items dfs"
  by (auto simp: transform_fact_order_items_def split: prod.splits sum.splits)

lemma declared_columns_Some:
  "map_of dimension_columns t = Some cols \<Longrightarrow> declared_columns t = Inr cols"
  by (simp add: declared_columns_def)


lemma field_distinct:
  assumes "distinct (columns df)" "c \<in> set (columns df)"
  shows "map (cell_at r) (positions c (columns df)) = [field df c r]"
    and "map (\<lambda>p. columns df ! p) (positions c (columns df)) = [c]"
proof -
  obtain p where p: "positions c (columns df) = [p]" "columns df ! p = c"
    using positions_distinct [OF assms] by blast
  show "map (cell_at r) (positions c (columns df)) = [field df c r]"
    using p by (simp add: field_def)
  show "map (\<lambda>p. columns df ! p) (positions c (columns df)) = [c]"
    using p by simp
qed

lemma select_columns_present:
  assumes d: "distinct (columns df)" and s: "set cols \<subseteq> set (columns df)"
  shows "select_columns df cols =
           Inr \<lparr>columns = cols, rows = map (\<lambda>r. map (\<lambda>c. field df c r) cols) (rows df)\<rparr>"
proof -
  have none: "filter (\<lambda>c. c \<notin> set (columns df)) cols = []"
    using s by (auto simp: filter_empty_conv)
  have labels: "map (\<lambda>p. columns df ! p) (concat (map (\<lambda>c. positions c (columns df)) cs)) = cs"
    if "set cs \<subseteq> set (columns df)" for cs
    using that
  proof (induction cs)
    case Nil
    then show ?case by simp
  next
    case (Cons c cs)
    then show ?case using field_distinct(2) [OF d, of c] by simp
  qed
  have cells: "map (cell_at r) (concat (map (\<lambda>c. positions c (columns df)) cs)) =
               map (\<lambda>c. field df c r) cs"
    if "set cs \<subseteq> set (columns df)" for cs r
    using that
  proof (induction cs)
    case Nil
    then show ?case by simp
  next
    case (Cons c cs)
    then show ?case using field_distinct(1) [OF d, of c r] by simp
  qed
  have "map (\<lambda>r. map (cell_at r) (concat (map (\<lambda>c. positions c (columns df)) cols))) (rows df) =
        map (\<lambda>r. map (\<lambda>c. field df c r) cols) (rows df)"
    using cells [OF s] by simp
  then show ?thesis
    using none labels [OF s] by (simp add: select_columns_def Let_def)
qed

text \<open>
  C5. Given a destination table with its declared column list and a dataframe with
  distinct labels: when every declared column is among the labels, \<open>transform_data\<close>
  returns the dataframe projected to exactly the declared list, in that order, each row
  keeping its cells under those labels; whenever it returns, the labels of the result are
  the declared list; and it raises KeyError when a declared column is not among the
  labels. The two fact transforms do the same on the joined data (for \<open>fact_orders\<close> after
  \<open>user_id_x\<close> has been renamed to \<open>user_id\<close>), for joined data whose labels are distinct.
  A dataframe can carry a label twice, and selecting such a label yields each of its
  columns; the frames read from a SQL table never do.
\<close>

theorem transform_output_columns:
  "(\<forall>cols. map_of dimension_columns t = Some cols \<longrightarrow> distinct (columns df) \<longrightarrow>
      (set cols \<subseteq> set (columns df) \<longrightarrow>
         transform_data df t w =
           (Inr \<lparr>columns = cols, rows = map (\<lambda>r. map (\<lambda>c. field df c r) cols) (rows df)\<rparr>,
            emit (Print (''Transform Data '' @ t @ '' Success'')) w))
      \<and> (\<forall>out. fst (transform_data df t w) = Inr out \<longrightarrow> columns out = cols)
      \<and> (\<not> set cols \<subseteq> set (columns df) \<longrightarrow>
           (\<exists>c. transform_data df t w = (Inl (KeyError c), w)
                \<and> c \<in> set cols \<and> c \<notin> set (columns df))))
   \<and> (\<forall>dfs j cols. fst (extract_tables (map fst oltp_tables) w) = Inr dfs \<longrightarrow>
        join_fact_orders dfs = Inr j \<longrightarrow> distinct (columns j) \<longrightarrow>
        map_of dimension_columns ''fact_orders'' = Some cols \<longrightarrow>
        (set cols \<subseteq> set (columns j) \<longrightarrow>
           fst (transform_fact_orders w) =
             Inr \<lparr>columns = cols, rows = map (\<lambda>r. map (\<lambda>c. field j c r) cols) (rows j)\<rparr>)
        \<and> (\<forall>out. fst (transform_fact_orders w) = Inr out \<longrightarrow> columns out = cols)
        \<and> (\<not> set cols \<subseteq> set (columns j) \<longrightarrow>
             (\<exists>c. fst (transform_fact_orders w) = Inl (KeyError c)
                  \<and> c \<in> set cols \<and> c \<notin> set (columns j))))
   \<and> (\<forall>dfs j cols. fst (extract_tables (map fst oltp_tables) w) = Inr dfs \<longrightarrow>
        join_fact_order_items dfs = Inr j \<longrightarrow> distinct (columns j) \<longrightarrow>
        map_of dimension_columns ''fact_order_items'' = Some cols \<longrightarrow>
        (set cols \<subseteq> set (columns j) \<longrightarrow>
           fst (transform_fact_order_items w) =
             Inr \<lparr>columns = cols, rows = map (\<lambda>r. map (\<lambda>c. field j c r) cols) (rows j)\<rparr>)
        \<and> (\<forall>out. fst (transform_fact_order_items w) = Inr out \<longrightarrow> columns out = cols)
        \<and> (\<not> set cols \<subseteq> set (columns j) \<longrightarrow>
             (\<exists>c. fst (transform_fact_order_items w) = Inl (KeyError c)
                  \<and> c \<in> set cols \<and> c \<notin> set (columns j))))"
proof (intro conjI allI impI)
  fix cols
  assume d: "map_of dimension_columns t = Some cols" "distinct (columns df)"
    and s: "set cols \<subseteq> set (columns df)"
  have ne: "cols \<noteq> []" using d(1) by (rule declared_nonempty)
  show "transform_data df t w =
           (Inr \<lparr>columns = cols, rows = map (\<lambda>r. map (\<lambda>c. field df c r) cols) (rows df)\<rparr>,
            emit (Print (''Transform Data '' @ t @ '' Success'')) w)"
    using d(1) ne select_columns_present [OF d(2) s] by (simp add: transform_data_def)
next
  fix cols out
  assume d: "map_of dimension_columns t = Some cols" "distinct (columns df)"
    and r: "fst (transform_data df t w) = Inr out"
  have "cols \<noteq> []" using d(1) by (rule declared_nonempty)
  then have "select_columns df cols = Inr out"
    using d(1) r by (auto simp: transform_data_def split: sum.splits)
  then show "columns out = cols"
    using d(2) select_columns_labels by blast
next
  fix cols
  assume d: "map_of dimension_columns t = Some cols"
    and m: "\<not> set cols \<subseteq> set (columns df)"
  have ne: "cols \<noteq> []" using d by (rule declared_nonempty)
  obtain c where c: "select_columns df cols = Inl (KeyError c)" "c \<in> set cols"
      "c \<notin> set (columns df)"
    using select_columns_missing [OF m] by blast
  have "transform_data df t w = (Inl (KeyError c), w)"
    using d ne c(1) by (simp add: transform_data_def)
  then show "\<exists>c. transform_data df t w = (Inl (KeyError c), w)
                \<and> c \<in> set cols \<and> c \<notin> set (columns df)"
    using c by blast
next
  fix dfs j cols
  assume e: "fst (extract_tables (map fst oltp_tables) w) = Inr dfs"
    and j: "join_fact_orders dfs = Inr j" "distinct (columns j)"
    and d: "map_of dimension_columns ''fact_orders'' = Some cols"
    and s: "set cols \<subseteq> set (columns j)"
  show "fst (transform_fact_orders w) =
          Inr \<lparr>columns = cols, rows = map (\<lambda>r. map (\<lambda>c. field j c r) cols) (rows j)\<rparr>"
    using fst_transform_fact_orders [OF e] j(1) declared_columns_Some [OF d]
      select_columns_present [OF j(2) s]
    by (simp add: assemble_fact_orders_def bindE_def)
next
  fix dfs j cols out
  assume e: "fst (extract_tables (map fst oltp_tables) w) = Inr dfs"
    and j: "join_fact_orders dfs = Inr j" "distinct (columns j)"
    and d: "map_of dimension_columns ''fact_orders'' = Some cols"
    and r: "fst (transform_fact_orders w) = Inr out"
  have "select_columns j cols = Inr out"
    using r fst_transform_fact_orders [OF e] j(1) declared_columns_Some [OF d]
    by (simp add: assemble_fact_orders_def bindE_def)
  then show "columns out = cols"
    using j(2) select_columns_labels by blast
next
  fix dfs j cols
  assume e: "fst (extract_tables (map fst oltp_tables) w) = Inr dfs"
    and j: "join_fact_orders dfs = Inr j"
    and d: "map_of dimension_columns ''fact_orders'' = Some cols"
    and m: "\<not> set cols \<subseteq> set (columns j)"
  obtain c where c: "select_columns j cols = Inl (KeyError c)" "c \<in> set cols"
      "c \<notin> set (columns j)"
    using select_columns_missing [OF m] by blast
  have "fst (transform_fact_orders w) = Inl (KeyError c)"
    using fst_transform_fact_orders [OF e] j declared_columns_Some [OF d] c(1)
    by (simp add: assemble_fact_orders_def bindE_def)
  then show "\<exists>c. fst (transform_fact_orders w) = Inl (KeyError c)
                  \<and> c \<in> set cols \<and> c \<notin> set (columns j)"
    using c by blast
next
  fix dfs j cols
  assume e: "fst (extract_tables (map fst oltp_tables) w) = Inr dfs"
    and j: "join_fact_order_items dfs = Inr j" "distinct (columns j)"
    and d: "map_of dimension_columns ''fact_order_items'' = Some cols"
    and s: "set cols \<subseteq> set (columns j)"
  show "fst (transform_fact_order_items w) =
          Inr \<lparr>columns = cols, rows = map (\<lambda>r. map (\<lambda>c. field j c r) cols) (rows j)\<rparr>"
    using fst_transform_fact_order_items [OF e] j(1) declared_columns_Some [OF d]
      select_columns_present [OF j(2) s]
    by (simp add: assemble_fact_order_items_def bindE_def)
next
  fix dfs j cols out
  assume e: "fst (extract_tables (map fst oltp_tables) w) = Inr dfs"
    and j: "join_fact_order_items dfs = Inr j" "distinct (columns j)"
    and d: "map_of dimension_columns ''fact_order_items'' = Some cols"
    and r: "fst (transform_fact_order_items w) = Inr out"
  have "select_columns j cols = Inr out"
    using r fst_transform_fact_order_items [OF e] j(1) declared_columns_Some [OF d]
    by (simp add: assemble_fact_order_items_def bindE_def)
  then show "columns out = cols"
    using j(2) select_columns_labels by blast
next
  fix dfs j cols
  assume e: "fst (extract_tables (map fst oltp_tables) w) = Inr dfs"
    and j: "join_fact_order_items dfs = Inr j"
    and d: "map_of dimension_columns ''fact_order_items'' = Some cols"
    and m: "\<not> set cols \<subseteq> set (columns j)"
  obtain c where c: "select_columns j cols = Inl (KeyError c)" "c \<in> set cols"
      "c \<notin> set (columns j)"
    using select_columns_missing [OF m] by blast
  have "fst (transform_fact_order_items w) = Inl (KeyError c)"
    using fst_transform_fact_order_items [OF e] j declared_columns_Some [OF d] c(1)
    by (simp add: assemble_fact_order_items_def bindE_def)
  then show "\<exists>c. fst (transform_fact_order_items w) = Inl (KeyError c)
                  \<and> c \<in> set cols \<and> c \<notin> set (columns j)"
    using c by blast
qed

theorem transform_output_columns_witness:
  "map_of dimension_columns ''dim_user'' = Some (columns projected_users)
   \<and> distinct (columns wide_users)
   \<and> set (columns projected_users) \<subseteq> set (columns wide_users)
   \<and> transform_data wide_users ''dim_user'' seed_world =
       (Inr projected_users, emit (Print ''Transform Data dim_user Success'') seed_world)
   \<and> distinct (columns seed_users)
   \<and> fst (transform_data seed_users ''dim_user'' seed_world) = Inr seed_users
   \<and> distinct (columns seed_payments)
   \<and> \<not> set (columns projected_users) \<subseteq> set (columns seed_payments)
   \<and> transform_data seed_payments ''dim_user'' seed_world = (Inl (KeyError ''user_id''), seed_world)
   \<and> fst (extract_tables (map fst oltp_tables) seed_world) = Inr seed_frames
   \<and> join_fact_orders seed_frames = Inr seed_joined_orders
   \<and> distinct (columns seed_joined_orders)
   \<and> map_of dimension_columns ''fact_orders'' = Some (columns seed_orders)
   \<and> set (columns seed_orders) \<subseteq> set (columns seed_joined_orders)
   \<and> fst (transform_fact_orders seed_world) = Inr seed_orders
   \<and> join_fact_order_items seed_frames = Inr seed_joined_order_items
   \<and> distinct (columns seed_joined_order_items)
   \<and> map_of dimension_columns ''fact_order_items'' = Some (columns items_fact)
   \<and> \<not> set (columns items_fact) \<subseteq> set (columns seed_joined_order_items)
   \<and> fst (transform_fact_order_items seed_world) = Inl (KeyError ''product_discount'')
   \<and> fst (extract_tables (map fst oltp_tables) items_world) = Inr items_frames
   \<and> join_fact_order_items items_frames = Inr items_joined
   \<and> distinct (columns items_joined)
   \<and> set (columns items_fact) \<subseteq> set (columns items_joined)
   \<and> fst (transform_fact_order_items items_world) = Inr items_fact"
proof -
  have a: "map_of dimension_columns ''dim_user'' = Some (columns projected_users)"
    by (simp add: dimension_columns_def projected_users_def)
  have dw: "distinct (columns wide_users)" by (simp add: wide_users_def)
  have sw: "set (columns projected_users) \<subseteq> set (columns wide_users)"
    by (simp add: projected_users_def wide_users_def)
  have pw: "\<lparr>columns = columns projected_users,
             rows = map (\<lambda>r. map (\<lambda>c. field wide_users c r) (columns projected_users))
                        (rows wide_users)\<rparr> = projected_users"
    by code_simp
  have w1: "transform_data wide_users ''dim_user'' seed_world =
       (Inr projected_users, emit (Print ''Transform Data dim_user Success'') seed_world)"
    using transform_output_columns [of "''dim_user''" wide_users seed_world,
        THEN conjunct1, rule_format, OF a dw, THEN conjunct1, rule_format, OF sw] pw
    by simp
  have b: "distinct (columns seed_users)" by (simp add: seed_users_def)
  have c: "fst (transform_data seed_users ''dim_user'' seed_world) = Inr seed_users"
    by code_simp
  have d: "distinct (columns seed_payments)" by (simp add: seed_payments_def)
  have e: "\<not> set (columns projected_users) \<subseteq> set (columns seed_payments)"
    by (simp add: projected_users_def seed_payments_def)
  have f: "fst (transform_data seed_payments ''dim_user'' seed_world) = Inl (KeyError ''user_id'')"
    by code_simp
  have "\<exists>c. transform_data seed_payments ''dim_user'' seed_world = (Inl (KeyError c), seed_world)
            \<and> c \<in> set (columns projected_users) \<and> c \<notin> set (columns seed_payments)"
    using transform_output_columns [of "''dim_user''" seed_payments seed_world,
        THEN conjunct1, rule_format, OF a d, THEN conjunct2, THEN conjunct2, rule_format, OF e] .
  then obtain c0 where
    c0: "transform_data seed_payments ''dim_user'' seed_world = (Inl (KeyError c0), seed_world)"
    by blast
  have "c0 = ''user_id''"
    using c0 f by simp
  then have f': "transform_data seed_payments ''dim_user'' seed_world =
                   (Inl (KeyError ''user_id''), seed_world)"
    using c0 by simp
  have g: "fst (extract_tables (map fst oltp_tables) seed_world) = Inr seed_frames"
    by code_simp
  have h: "join_fact_orders seed_frames = Inr seed_joined_orders"
    by code_simp
  have i: "distinct (columns seed_joined_orders)" by code_simp
  have j: "map_of dimension_columns ''fact_orders'' = Some (columns seed_orders)"
    by (simp add: dimension_columns_def seed_orders_def)
  have js: "set (columns seed_orders) \<subseteq> set (columns seed_joined_orders)"
    by code_simp
  have k: "fst (transform_fact_orders seed_world) = Inr seed_orders"
    by code_simp
  have l: "join_fact_order_items seed_frames = Inr seed_joined_order_items"
    by code_simp
  have m: "distinct (columns seed_joined_order_items)" by code_simp
  have n: "map_of dimension_columns ''fact_order_items'' = Some (columns items_fact)"
    by (simp add: dimension_columns_def items_fact_def)
  have o: "\<not> set (columns items_fact) \<subseteq> set (columns seed_joined_order_items)"
    by code_simp
  have p: "fst (transform_fact_order_items seed_world) = Inl (KeyError ''product_discount'')"
    by code_simp
  have q: "fst (extract_tables (map fst oltp_tables) items_world) = Inr items_frames"
    by code_simp
  have r: "join_fact_order_items items_frames = Inr items_joined"
    by code_simp
  have s: "distinct (columns items_joined)" by code_simp
  have t: "set (columns items_fact) \<subseteq> set (columns items_joined)"
    by code_simp
  have pi: "\<lparr>columns = columns items_fact,
             rows = map (\<lambda>r. map (\<lambda>c. field items_joined c r) (columns items_fact))
                        (rows items_joined)\<rparr> = items_fact"
    by code_simp
  have u: "fst (transform_fact_order_items items_world) = Inr items_fact"
    using transform_output_columns [of _ _ items_world,
        THEN conjunct2, THEN conjunct2, rule_format, OF q r s n, THEN conjunct1,
        rule_format, OF t] pi
    by simp
  from a dw sw w1 b c d e f' g h i j js k l m n o p q r s t u show ?thesis by blast
qed

section \<open>Incremental load\<close>

lemma positions_single: "positions k [k] = [0]"
  by (simp add: positions_def)

lemma key_position_field:
  "key_position k (columns df) = Inr p \<Longrightarrow> field df k r = cell_at r p"
  by (auto simp: key_position_def field_def split: list.splits)

lemma read_key_column_keys:
  assumes "read_key_column k t w = (Inr ex, w1)"
  shows "\<exists>tb. dwh w t = Some tb \<and> w1 = emit (DwhRead t) w \<and> columns ex = [k]
              \<and> map (\<lambda>r. cell_at r 0) (rows ex) = stored_keys tb k"
  using assms
  by (auto simp: read_key_column_def stored_keys_def field_def cell_at_def
           split: option.splits list.splits)

lemma deduplicate_data_new_rows:
  assumes "columns ex = [k]" "map (\<lambda>r. cell_at r 0) (rows ex) = stored_keys tb k"
  shows "deduplicate_data df ex k =
           (case key_position k (columns df) of
              Inl e \<Rightarrow> Inl e
            | Inr p \<Rightarrow> Inr (df\<lparr>rows := new_rows df tb k\<rparr>))"
proof (cases "key_position k (columns df)")
  case (Inl e)
  then show ?thesis
    using assms by (simp add: deduplicate_data_def key_position_def positions_single)
next
  case (Inr p)
  then have "\<And>r. field df k r = cell_at r p" by (rule key_position_field)
  then show ?thesis
    using assms Inr
    by (simp add: deduplicate_data_def key_position_def positions_single new_rows_def)
qed

lemma new_rows_idem: "new_rows (df\<lparr>rows := new_rows df tb k\<rparr>) tb k = new_rows df tb k"
  by (simp add: new_rows_def field_def)

lemma to_sql_existing:
  assumes "dwh w t = Some tb" "to_sql df t w = (Inr u, w')"
  shows "w' = emit (DwhAppend t)
                (w\<lparr>dwh := (dwh w)(t \<mapsto> tb\<lparr>rows := rows tb @ map (place (columns df) (columns tb)) (rows df)\<rparr>)\<rparr>)"
proof (cases "rows df = []")
  case True
  have "(dwh w)(t \<mapsto> tb) = dwh w" using assms(1) by (simp add: fun_upd_idem)
  then show ?thesis using assms True by (simp add: to_sql_def)
next
  case False
  then show ?thesis using assms by (auto simp: to_sql_def split: if_splits)
qed

lemma load_data_unfold:
  assumes "get_unique_key t = Inr k" "dwh w t = Some tb"
  shows "load_data df t w =
     (case positions k (columns tb) of
        [] \<Rightarrow> (Inl (DbError k), emit (DwhRead t) w)
      | q # qs \<Rightarrow>
          (case key_position k (columns df) of
             Inl e \<Rightarrow> (Inl e, emit (DwhRead t) w)
           | Inr p \<Rightarrow>
               (case to_sql (df\<lparr>rows := new_rows df tb k\<rparr>) t (emit (DwhRead t) w) of
                  (Inl e, w2) \<Rightarrow> (Inl e, w2)
                | (Inr u, w2) \<Rightarrow>
                    (Inr (), emit (Print (''Load Data '' @ t @ '' Success'')) w2))))"
proof (cases "positions k (columns tb)")
  case Nil
  then show ?thesis using assms by (simp add: load_data_def read_key_column_def)
next
  case (Cons q qs)
  define ex where "ex = \<lparr>columns = [k], rows = map (\<lambda>r. [cell_at r q]) (rows tb)\<rparr>"
  have r: "read_key_column k t w = (Inr ex, emit (DwhRead t) w)"
    using assms Cons by (simp add: read_key_column_def ex_def)
  obtain tb' where tb': "dwh w t = Some tb'" "columns ex = [k]"
      "map (\<lambda>r. cell_at r 0) (rows ex) = stored_keys tb' k"
    using read_key_column_keys [OF r] by blast
  then have "tb' = tb" using assms by simp
  then have d: "deduplicate_data df ex k =
           (case key_position k (columns df) of
              Inl e \<Rightarrow> Inl e
            | Inr p \<Rightarrow> Inr (df\<lparr>rows := new_rows df tb k\<rparr>))"
    using deduplicate_data_new_rows tb' by blast
  show ?thesis
    using assms(1) r d Cons by (simp add: load_data_def split: sum.splits)
qed

lemma load_data_success:
  assumes "load_data df t w = (Inr u, w')"
  shows "\<exists>k tb. get_unique_key t = Inr k \<and> dwh w t = Some tb"
  using assms
  by (auto simp: load_data_def read_key_column_def split: sum.splits option.splits)

text \<open>
  C6. When \<open>load_data\<close> returns, the destination table holds its former rows followed by
  exactly the candidate rows whose key value was not among the table's key values, laid
  out under the table's columns. A candidate row whose key is already there plays no part:
  with or without such rows, whatever else they hold, \<open>load_data\<close> does the same and ends
  the same way.
\<close>

theorem load_data_appends_new_rows:
  "(\<forall>u w'. load_data df t w = (Inr u, w') \<longrightarrow>
      (\<exists>k tb. get_unique_key t = Inr k \<and> dwh w t = Some tb
         \<and> dwh w' = (dwh w)(t \<mapsto>
               tb\<lparr>rows := rows tb @ map (place (columns df) (columns tb)) (new_rows df tb k)\<rparr>)))
   \<and> (\<forall>k tb. get_unique_key t = Inr k \<longrightarrow> dwh w t = Some tb \<longrightarrow>
        load_data (df\<lparr>rows := new_rows df tb k\<rparr>) t w = load_data df t w)"
proof (intro conjI allI impI)
  fix u w'
  assume ok: "load_data df t w = (Inr u, w')"
  obtain k tb where kt: "get_unique_key t = Inr k" "dwh w t = Some tb"
    using load_data_success [OF ok] by blast
  let ?w1 = "emit (DwhRead t) w"
  let ?df' = "df\<lparr>rows := new_rows df tb k\<rparr>"
  have d1: "dwh ?w1 t = Some tb" "dwh ?w1 = dwh w"
    using kt by (simp_all add: emit_def)
  from ok load_data_unfold [OF kt, of df]
  obtain w2 u2 where s: "to_sql ?df' t ?w1 = (Inr u2, w2)"
    and w': "w' = emit (Print (''Load Data '' @ t @ '' Success'')) w2"
    by (auto split: list.splits sum.splits prod.splits)
  have "dwh w2 = (dwh w)(t \<mapsto>
          tb\<lparr>rows := rows tb @ map (place (columns df) (columns tb)) (new_rows df tb k)\<rparr>)"
    using to_sql_existing [OF d1(1) s] d1(2) by (simp add: emit_def)
  then have "dwh w' = (dwh w)(t \<mapsto>
          tb\<lparr>rows := rows tb @ map (place (columns df) (columns tb)) (new_rows df tb k)\<rparr>)"
    using w' by (simp add: emit_def)
  then show "\<exists>k tb. get_unique_key t = Inr k \<and> dwh w t = Some tb
         \<and> dwh w' = (dwh w)(t \<mapsto>
               tb\<lparr>rows := rows tb @ map (place (columns df) (columns tb)) (new_rows df tb k)\<rparr>)"
    using kt by blast
next
  fix k tb
  assume kt: "get_unique_key t = Inr k" "dwh w t = Some tb"
  let ?df' = "df\<lparr>rows := new_rows df tb k\<rparr>"
  have 1: "?df'\<lparr>rows := new_rows ?df' tb k\<rparr> = ?df'"
    by (simp add: new_rows_idem)
  have 2: "columns ?df' = columns df"
    by simp
  show "load_data ?df' t w = load_data df t w"
    unfolding load_data_unfold [OF kt] 1 2 ..
qed

theorem load_data_appends_new_rows_witness:
  "load_data two_users ''dim_user'' loaded_world =
     (Inr (), snd (load_data two_users ''dim_user'' loaded_world))
   \<and> get_unique_key ''dim_user'' = Inr ''user_id''
   \<and> dwh loaded_world ''dim_user'' = Some seed_users
   \<and> new_rows two_users seed_users ''user_id'' =
       [[IntV 5, StrV ''Cy'', StrV ''Tan'', StrV ''M'', Null, StrV ''1991-02-02'',
         StrV ''2021-01-01'']]
   \<and> map_option rows (dwh (snd (load_data two_users ''dim_user'' loaded_world)) ''dim_user'') =
       Some [[IntV 1, StrV ''Ana'', StrV ''Lee'', StrV ''F'', Null, StrV ''1990-01-01'',
              StrV ''2020-01-01''],
             [IntV 5, StrV ''Cy'', StrV ''Tan'', StrV ''M'', Null, StrV ''1991-02-02'',
              StrV ''2021-01-01'']]
   \<and> load_data (two_users\<lparr>rows := new_rows two_users seed_users ''user_id''\<rparr>) ''dim_user''
         loaded_world = load_data two_users ''dim_user'' loaded_world"
proof -
  let ?w' = "snd (load_data two_users ''dim_user'' loaded_world)"
  have "fst (load_data two_users ''dim_user'' loaded_world) = Inr ()"
    by code_simp
  then have a: "load_data two_users ''dim_user'' loaded_world = (Inr (), ?w')"
    by (simp add: prod_eq_iff)
  have b: "get_unique_key ''dim_user'' = Inr ''user_id''"
    by (simp add: get_unique_key_def)
  have c: "dwh loaded_world ''dim_user'' = Some seed_users"
    by (simp add: loaded_world_def)
  have d: "new_rows two_users seed_users ''user_id'' =
       [[IntV 5, StrV ''Cy'', StrV ''Tan'', StrV ''M'', Null, StrV ''1991-02-02'',
         StrV ''2021-01-01'']]"
    by code_simp
  have e: "place (columns two_users) (columns seed_users)
             [IntV 5, StrV ''Cy'', StrV ''Tan'', StrV ''M'', Null, StrV ''1991-02-02'',
              StrV ''2021-01-01''] =
           [IntV 5, StrV ''Cy'', StrV ''Tan'', StrV ''M'', Null, StrV ''1991-02-02'',
            StrV ''2021-01-01'']"
    by code_simp
  have f: "rows seed_users = [[IntV 1, StrV ''Ana'', StrV ''Lee'', StrV ''F'', Null,
             StrV ''1990-01-01'', StrV ''2020-01-01'']]"
    by (simp add: seed_users_def)
  note T = load_data_appends_new_rows [of two_users "''dim_user''" loaded_world]
  from T [THEN conjunct1, rule_format, OF a]
  obtain k tb where kt: "get_unique_key ''dim_user'' = Inr k"
      "dwh loaded_world ''dim_user'' = Some tb"
      "dwh ?w' = (dwh loaded_world)(''dim_user'' \<mapsto>
         tb\<lparr>rows := rows tb @ map (place (columns two_users) (columns tb))
                                  (new_rows two_users tb k)\<rparr>)"
    by blast
  have "k = ''user_id''" "tb = seed_users"
    using kt(1,2) b c by simp_all
  then have g: "map_option rows (dwh ?w' ''dim_user'') =
       Some [[IntV 1, StrV ''Ana'', StrV ''Lee'', StrV ''F'', Null, StrV ''1990-01-01'',
              StrV ''2020-01-01''],
             [IntV 5, StrV ''Cy'', StrV ''Tan'', StrV ''M'', Null, StrV ''1991-02-02'',
              StrV ''2021-01-01'']]"
    using kt(3) d e f by simp
  have h: "load_data (two_users\<lparr>rows := new_rows two_users seed_users ''user_id''\<rparr>)
             ''dim_user'' loaded_world = load_data two_users ''dim_user'' loaded_world"
    using T [THEN conjunct2, rule_format, OF b c] .
  from a b c d g h show ?thesis by blast
qed

section \<open>What each step adds to the trace\<close>

lemma stages_append [simp]: "stages (xs @ ys) = stages xs @ stages ys"
  by (simp add: stages_def)

lemma stages_Nil [simp]: "stages [] = []"
  by (simp add: stages_def)

lemma stages_Cons: "stages (e # es) = stage_of e @ stages es"
  by (simp add: stages_def)

lemma extract_data_frame:
  "\<exists>evs. trace (snd (extract_data n w)) = trace w @ evs \<and> stages evs = []
         \<and> oltp (snd (extract_data n w)) = oltp w \<and> dwh (snd (extract_data n w)) = dwh w
         \<and> sale_seq (snd (extract_data n w)) = sale_seq w"
  by (auto simp: extract_data_def emit_def stages_Cons split: option.splits)

lemma transform_data_frame:
  "\<exists>evs. trace (snd (transform_data df t w)) = trace w @ evs \<and> stages evs = []
         \<and> oltp (snd (transform_data df t w)) = oltp w
         \<and> dwh (snd (transform_data df t w)) = dwh w
         \<and> sale_seq (snd (transform_data df t w)) = sale_seq w"
  by (auto simp: transform_data_def emit_def stages_Cons split: option.splits sum.splits)

lemma extract_tables_frame:
  "\<exists>evs. trace (snd (extract_tables ts w)) = trace w @ evs \<and> stages evs = []
         \<and> oltp (snd (extract_tables ts w)) = oltp w
         \<and> dwh (snd (extract_tables ts w)) = dwh w
         \<and> sale_seq (snd (extract_tables ts w)) = sale_seq w"
proof (induction ts arbitrary: w)
  case Nil
  then show ?case by simp
next
  case (Cons t ts)
  obtain r w1 where e: "extract_data t w = (r, w1)" by (cases "extract_data t w")
  obtain evs1 where 1: "trace w1 = trace w @ evs1" "stages evs1 = []" "oltp w1 = oltp w"
      "dwh w1 = dwh w" "sale_seq w1 = sale_seq w"
    using extract_data_frame [of t w] e by auto
  show ?case
  proof (cases r)
    case (Inl err)
    then show ?thesis using e 1 by simp
  next
    case (Inr df)
    obtain r2 w2 where e2: "extract_tables ts w1 = (r2, w2)" by (cases "extract_tables ts w1")
    obtain evs2 where 2: "trace w2 = trace w1 @ evs2" "stages evs2 = []" "oltp w2 = oltp w1"
      "dwh w2 = dwh w1" "sale_seq w2 = sale_seq w1"
      using Cons.IH [of w1] e2 by auto
    have "snd (extract_tables (t # ts) w) = w2"
      using e Inr e2 by (simp split: sum.splits)
    then show ?thesis using 1 2 by simp
  qed
qed

lemma transform_fact_orders_frame:
  "\<exists>evs. trace (snd (transform_fact_orders w)) = trace w @ evs \<and> stages evs = []
         \<and> oltp (snd (transform_fact_orders w)) = oltp w
         \<and> dwh (snd (transform_fact_orders w)) = dwh w
         \<and> sale_seq (snd (transform_fact_orders w)) = sale_seq w"
proof -
  have "snd (transform_fact_orders w) = snd (extract_tables (map fst oltp_tables) w)"
    by (simp add: transform_fact_orders_def split: prod.splits sum.splits)
  then show ?thesis using extract_tables_frame [of "map fst oltp_tables" w] by simp
qed

lemma transform_fact_order_items_frame:
  "\<exists>evs. trace (snd (transform_fact_order_items w)) = trace w @ evs \<and> stages evs = []
         \<and> oltp (snd (transform_fact_order_items w)) = oltp w
         \<and> dwh (snd (transform_fact_order_items w)) = dwh w
         \<and> sale_seq (snd (transform_fact_order_items w)) = sale_seq w"
proof -
  have "snd (transform_fact_order_items w) = snd (extract_tables (map fst oltp_tables) w)"
    by (simp add: transform_fact_order_items_def split: prod.splits sum.splits)
  then show ?thesis using extract_tables_frame [of "map fst oltp_tables" w] by simp
qed

lemma to_sql_trace:
  "\<exists>evs. trace (snd (to_sql df t w)) = trace w @ evs
         \<and> stages evs = (case fst (to_sql df t w) of Inl e \<Rightarrow> [] | Inr u \<Rightarrow> [Load t])
         \<and> oltp (snd (to_sql df t w)) = oltp w
         \<and> sale_seq (snd (to_sql df t w)) = sale_seq w"
  by (auto simp: to_sql_def emit_def stages_Cons split: option.splits)

lemma load_data_trace:
  "\<exists>evs. trace (snd (load_data df t w)) = trace w @ evs
         \<and> stages evs = (case fst (load_data df t w) of Inl e \<Rightarrow> [] | Inr u \<Rightarrow> [Load t])
         \<and> oltp (snd (load_data df t w)) = oltp w
         \<and> sale_seq (snd (load_data df t w)) = sale_seq w"
proof (cases "get_unique_key t")
  case (Inl e)
  then show ?thesis by (simp add: load_data_def)
next
  case (Inr k)
  obtain r1 w1 where r: "read_key_column k t w = (r1, w1)"
    by (cases "read_key_column k t w")
  have w1: "w1 = emit (DwhRead t) w"
    using r by (auto simp: read_key_column_def split: option.splits list.splits)
  show ?thesis
  proof (cases r1)
    case (Inl e)
    then show ?thesis using Inr r w1 by (simp add: load_data_def emit_def stages_Cons)
  next
    case ex: (Inr ex)
    show ?thesis
    proof (cases "deduplicate_data df ex k")
      case (Inl e)
      then show ?thesis using Inr r w1 ex by (simp add: load_data_def emit_def stages_Cons)
    next
      case d: (Inr df')
      obtain r2 w2 where s: "to_sql df' t w1 = (r2, w2)" by (cases "to_sql df' t w1")
      obtain evs where evs: "trace w2 = trace w1 @ evs"
          "stages evs = (case r2 of Inl e \<Rightarrow> [] | Inr u \<Rightarrow> [Load t])"
          "oltp w2 = oltp w1" "sale_seq w2 = sale_seq w1"
        using to_sql_trace [of df' t w1] s by auto
      show ?thesis
      proof (cases r2)
        case (Inl e)
        then show ?thesis
          using Inr r w1 ex d s evs by (simp add: load_data_def emit_def stages_Cons)
      next
        case r2: (Inr u)
        then show ?thesis
          using Inr r w1 ex d s evs by (simp add: load_data_def emit_def stages_Cons)
      qed
    qed
  qed
qed

lemma after_load_trace:
  assumes "trace w1 = trace w @ evs1" "stages evs1 = []" "oltp w1 = oltp w"
    "sale_seq w1 = sale_seq w"
  shows "\<exists>evs. trace (snd (case r of Inl e \<Rightarrow> (Inl e, w1) | Inr df \<Rightarrow> load_data df t w1)) =
               trace w @ evs
         \<and> stages evs =
             (case fst (case r of Inl e \<Rightarrow> (Inl e, w1) | Inr df \<Rightarrow> load_data df t w1) of
                Inl e \<Rightarrow> [] | Inr u \<Rightarrow> [Load t])
         \<and> oltp (snd (case r of Inl e \<Rightarrow> (Inl e, w1) | Inr df \<Rightarrow> load_data df t w1)) = oltp w
         \<and> sale_seq (snd (case r of Inl e \<Rightarrow> (Inl e, w1) | Inr df \<Rightarrow> load_data df t w1)) =
             sale_seq w"
proof (cases r)
  case (Inl e)
  then show ?thesis using assms by simp
next
  case (Inr df)
  obtain evs where "trace (snd (load_data df t w1)) = trace w1 @ evs"
      "stages evs = (case fst (load_data df t w1) of Inl e \<Rightarrow> [] | Inr u \<Rightarrow> [Load t])"
      "oltp (snd (load_data df t w1)) = oltp w1"
      "sale_seq (snd (load_data df t w1)) = sale_seq w1"
    using load_data_trace [of df t w1] by blast
  then show ?thesis using Inr assms by simp
qed

lemma process_table_trace:
  "\<exists>evs. trace (snd (process_table (d, t) w)) = trace w @ evs
         \<and> stages evs = (case fst (process_table (d, t) w) of Inl e \<Rightarrow> [] | Inr u \<Rightarrow> [Load t])
         \<and> oltp (snd (process_table (d, t) w)) = oltp w
         \<and> sale_seq (snd (process_table (d, t) w)) = sale_seq w"
proof -
  consider (fo) "d = ''fact_orders''"
    | (foi) "d \<noteq> ''fact_orders''" "d = ''fact_order_items''"
    | (dim) "d \<noteq> ''fact_orders''" "d \<noteq> ''fact_order_items''"
    by blast
  then show ?thesis
  proof cases
    case fo
    obtain r w1 where e: "transform_fact_orders w = (r, w1)"
      by (cases "transform_fact_orders w")
    obtain evs1 where 1: "trace w1 = trace w @ evs1" "stages evs1 = []" "oltp w1 = oltp w"
        "sale_seq w1 = sale_seq w"
      using transform_fact_orders_frame [of w] e by auto
    have "process_table (d, t) w =
            (case r of Inl e \<Rightarrow> (Inl e, w1) | Inr df \<Rightarrow> load_data df t w1)"
      using fo e by (simp add: process_table_def split: sum.splits)
    then show ?thesis using after_load_trace [OF 1, where r = r and t = t] by simp
  next
    case foi
    obtain r w1 where e: "transform_fact_order_items w = (r, w1)"
      by (cases "transform_fact_order_items w")
    obtain evs1 where 1: "trace w1 = trace w @ evs1" "stages evs1 = []" "oltp w1 = oltp w"
        "sale_seq w1 = sale_seq w"
      using transform_fact_order_items_frame [of w] e by auto
    have "process_table (d, t) w =
            (case r of Inl e \<Rightarrow> (Inl e, w1) | Inr df \<Rightarrow> load_data df t w1)"
      using foi e by (simp add: process_table_def split: sum.splits)
    then show ?thesis using after_load_trace [OF 1, where r = r and t = t] by simp
  next
    case dim
    obtain r0 w0 where e0: "extract_data d w = (r0, w0)" by (cases "extract_data d w")
    obtain evs0 where 0: "trace w0 = trace w @ evs0" "stages evs0 = []" "oltp w0 = oltp w"
        "sale_seq w0 = sale_seq w"
      using extract_data_frame [of d w] e0 by auto
    show ?thesis
    proof (cases r0)
      case (Inl err)
      then have "process_table (d, t) w = (Inl err, w0)"
        using dim e0 by (simp add: process_table_def)
      then show ?thesis using 0 by simp
    next
      case (Inr df)
      obtain r w1 where e: "transform_data df d w0 = (r, w1)"
        by (cases "transform_data df d w0")
      obtain evs1 where "trace w1 = trace w0 @ evs1" "stages evs1 = []" "oltp w1 = oltp w0"
          "sale_seq w1 = sale_seq w0"
        using transform_data_frame [of df d w0] e by auto
      then have 1: "trace w1 = trace w @ (evs0 @ evs1)" "stages (evs0 @ evs1) = []"
          "oltp w1 = oltp w" "sale_seq w1 = sale_seq w"
        using 0 by simp_all
      have "process_table (d, t) w =
              (case r of Inl e \<Rightarrow> (Inl e, w1) | Inr df \<Rightarrow> load_data df t w1)"
        using dim e0 Inr e by (simp add: process_table_def split: sum.splits)
      then show ?thesis using after_load_trace [OF 1, where r = r and t = t] by simp
    qed
  qed
qed

lemma process_tables_trace:
  "\<exists>evs n. trace (snd (process_tables items w)) = trace w @ evs
           \<and> stages evs = map (\<lambda>item. Load (snd item)) (take n items)
           \<and> (case fst (process_tables items w) of Inl e \<Rightarrow> True | Inr u \<Rightarrow> length items \<le> n)
           \<and> oltp (snd (process_tables items w)) = oltp w
           \<and> sale_seq (snd (process_tables items w)) = sale_seq w"
proof (induction items arbitrary: w)
  case Nil
  then show ?case by simp
next
  case (Cons item items)
  obtain d t where item: "item = (d, t)" by (cases item)
  obtain r w1 where p: "process_table (d, t) w = (r, w1)" by (cases "process_table (d, t) w")
  obtain evs1 where 1: "trace w1 = trace w @ evs1"
      "stages evs1 = (case r of Inl e \<Rightarrow> [] | Inr u \<Rightarrow> [Load t])"
      "oltp w1 = oltp w" "sale_seq w1 = sale_seq w"
    using process_table_trace [of d t w] p by auto
  show ?case
  proof (cases r)
    case (Inl e)
    then have "process_tables (item # items) w = (Inl e, w1)"
      using item p by simp
    moreover have "stages evs1 = map (\<lambda>item. Load (snd item)) (take 0 (item # items))"
      using 1 Inl by simp
    ultimately show ?thesis
      using 1 by (intro exI [of _ evs1] exI [of _ 0]) simp
  next
    case (Inr u)
    obtain evs2 n where 2: "trace (snd (process_tables items w1)) = trace w1 @ evs2"
        "stages evs2 = map (\<lambda>item. Load (snd item)) (take n items)"
        "case fst (process_tables items w1) of Inl e \<Rightarrow> True | Inr u \<Rightarrow> length items \<le> n"
        "oltp (snd (process_tables items w1)) = oltp w1"
        "sale_seq (snd (process_tables items w1)) = sale_seq w1"
      using Cons.IH [of w1] by blast
    have eq: "process_tables (item # items) w = process_tables items w1"
      using item p Inr by simp
    have "trace (snd (process_tables (item # items) w)) = trace w @ (evs1 @ evs2)"
      using eq 1 2 by simp
    moreover have "stages (evs1 @ evs2) = map (\<lambda>item. Load (snd item)) (take (Suc n) (item # items))"
      using 1 2 Inr item by simp
    moreover have "case fst (process_tables (item # items) w) of Inl e \<Rightarrow> True
                   | Inr u \<Rightarrow> length (item # items) \<le> Suc n"
      using eq 2(3) by (simp split: sum.splits)
    moreover have "oltp (snd (process_tables (item # items) w)) = oltp w"
        "sale_seq (snd (process_tables (item # items) w)) = sale_seq w"
      using eq 1 2 by simp_all
    ultimately show ?thesis
      by (intro exI [of _ "evs1 @ evs2"] exI [of _ "Suc n"] conjI)
  qed
qed

lemma create_table_frame:
  "trace (create_table_if_not_exists name cols w) =
     trace w @ [DwhExec (''CREATE TABLE IF NOT EXISTS '' @ name)]
   \<and> oltp (create_table_if_not_exists name cols w) = oltp w
   \<and> sale_seq (create_table_if_not_exists name cols w) = sale_seq w"
  by (simp add: create_table_if_not_exists_def emit_def split: option.splits)

lemma create_each_frame:
  "\<exists>evs. trace (create_each ddls w) = trace w @ evs \<and> stages evs = []
         \<and> oltp (create_each ddls w) = oltp w \<and> sale_seq (create_each ddls w) = sale_seq w"
proof (induction ddls arbitrary: w)
  case Nil
  then show ?case by simp
next
  case (Cons ddl ddls)
  obtain name cols where ddl: "ddl = (name, cols)" by (cases ddl)
  let ?w1 = "create_table_if_not_exists name cols w"
  obtain evs where "trace (create_each ddls ?w1) = trace ?w1 @ evs" "stages evs = []"
      "oltp (create_each ddls ?w1) = oltp ?w1" "sale_seq (create_each ddls ?w1) = sale_seq ?w1"
    using Cons.IH [of ?w1] by blast
  then have "trace (create_each (ddl # ddls) w) =
               trace w @ (DwhExec (''CREATE TABLE IF NOT EXISTS '' @ name) # evs)"
      "stages (DwhExec (''CREATE TABLE IF NOT EXISTS '' @ name) # evs) = []"
      "oltp (create_each (ddl # ddls) w) = oltp w"
      "sale_seq (create_each (ddl # ddls) w) = sale_seq w"
    using ddl create_table_frame [of name cols w] by (simp_all add: stages_Cons)
  then show ?case by blast
qed

lemma mart_trace:
  "\<exists>evs. trace (snd (create_and_insert_dm_sales w)) = trace w @ evs \<and> stages evs = [Mart]
         \<and> oltp (snd (create_and_insert_dm_sales w)) = oltp w"
  by (auto simp: create_and_insert_dm_sales_def insert_dm_sales_def create_dm_sales_def
        emit_def stages_Cons Let_def split: option.splits sum.splits prod.splits)

section \<open>The order of a run\<close>

lemma pipeline_stages_unfold:
  "pipeline_stages =
     [Load ''dim_user'', Load ''dim_payment'', Load ''dim_shipper'', Load ''dim_rating'',
      Load ''dim_voucher'', Load ''fact_orders'', Load ''dim_product_category'',
      Load ''dim_product'', Load ''fact_order_items'', Mart]"
  by (simp add: pipeline_stages_def warehouse_tables_def)

lemma loads_after_references_prefix:
  "loads_after_references loaded (ss @ rest) \<Longrightarrow> loads_after_references loaded ss"
proof (induction ss arbitrary: loaded)
  case Nil
  then show ?case by simp
next
  case (Cons s ss)
  then show ?case by (cases s) auto
qed

lemma whole_run_loads_after_references: "loads_after_references [] pipeline_stages"
  unfolding pipeline_stages_unfold
  by (simp add: referenced_def foreign_keys_def warehouse_tables_def)

lemma prefix_loads_after_references: "loads_after_references [] (take n pipeline_stages)"
proof -
  have "loads_after_references [] (take n pipeline_stages @ drop n pipeline_stages)"
    using whole_run_loads_after_references by simp
  then show ?thesis by (rule loads_after_references_prefix)
qed

lemma etl_process_trace:
  "\<exists>evs n. trace (snd (etl_process w)) = trace w @ evs \<and> stages evs = take n pipeline_stages
           \<and> (case fst (etl_process w) of Inl e \<Rightarrow> True | Inr u \<Rightarrow> stages evs = pipeline_stages)"
proof -
  let ?w1 = "create_each ddl_statements w"
  obtain evs1 where 1: "trace ?w1 = trace w @ evs1" "stages evs1 = []"
    using create_each_frame [of ddl_statements w] by blast
  obtain r2 w2 where p: "process_tables warehouse_tables ?w1 = (r2, w2)"
    by (cases "process_tables warehouse_tables ?w1")
  obtain evs2 n where 2: "trace w2 = trace ?w1 @ evs2"
      "stages evs2 = map (\<lambda>item. Load (snd item)) (take n warehouse_tables)"
      "case r2 of Inl e \<Rightarrow> True | Inr u \<Rightarrow> length warehouse_tables \<le> n"
    using process_tables_trace [of warehouse_tables ?w1] p by auto
  show ?thesis
  proof (cases r2)
    case (Inl e)
    then have e: "etl_process w = (Inl e, w2)"
      using p by (simp add: etl_process_def create_tables_def)
    have "stages (evs1 @ evs2) = take (min n (length warehouse_tables)) pipeline_stages"
      using 1 2 by (simp add: pipeline_stages_def take_map min_def)
    then show ?thesis
      using e 1 2
      by (intro exI [of _ "evs1 @ evs2"] exI [of _ "min n (length warehouse_tables)"]) simp
  next
    case (Inr u)
    then have e: "etl_process w = create_and_insert_dm_sales w2"
      using p by (simp add: etl_process_def create_tables_def)
    obtain evs3 where 3: "trace (snd (create_and_insert_dm_sales w2)) = trace w2 @ evs3"
        "stages evs3 = [Mart]"
      using mart_trace [of w2] by blast
    have "length warehouse_tables \<le> n" using 2(3) Inr by simp
    then have "stages (evs1 @ evs2 @ evs3) = pipeline_stages"
      using 1 2 3 by (simp add: pipeline_stages_def)
    moreover have "trace (snd (etl_process w)) = trace w @ (evs1 @ evs2 @ evs3)"
      using e 1 2 3 by simp
    moreover have "pipeline_stages = take 10 pipeline_stages"
      by (simp add: pipeline_stages_unfold)
    ultimately show ?thesis
      by (intro exI [of _ "evs1 @ evs2 @ evs3"] exI [of _ 10]) (simp split: sum.splits)
  qed
qed

text \<open>
  C9, as the code has it. In every run, finished or not, the loads follow the order of
  \<open>warehouse_tables\<close> and the mart comes last: \<open>dim_user\<close>, \<open>dim_payment\<close>, \<open>dim_shipper\<close>,
  \<open>dim_rating\<close>, \<open>dim_voucher\<close>, \<open>fact_orders\<close>, \<open>dim_product_category\<close>, \<open>dim_product\<close>,
  \<open>fact_order_items\<close>, mart. So a table is loaded only when every table its foreign keys
  reference has been loaded, and the mart is built with all nine tables loaded;
  \<open>dim_product_category\<close> and \<open>dim_product\<close> are loaded after \<open>fact_orders\<close>.
\<close>

theorem run_follows_pipeline_stages:
  "\<exists>evs n. trace (snd (etl_process w)) = trace w @ evs
           \<and> stages evs = take n pipeline_stages
           \<and> loads_after_references [] (stages evs)
           \<and> (case fst (etl_process w) of Inl e \<Rightarrow> True | Inr u \<Rightarrow> stages evs = pipeline_stages)"
proof -
  obtain evs n where e: "trace (snd (etl_process w)) = trace w @ evs"
      "stages evs = take n pipeline_stages"
      "case fst (etl_process w) of Inl e \<Rightarrow> True | Inr u \<Rightarrow> stages evs = pipeline_stages"
    using etl_process_trace [of w] by blast
  have "loads_after_references [] (stages evs)"
    using e(2) prefix_loads_after_references [of n] by simp
  then show ?thesis using e by blast
qed

theorem run_follows_pipeline_stages_witness:
  "fst (etl_process seed_world) = Inr ()
   \<and> stages (trace (snd (etl_process seed_world))) =
       [Load ''dim_user'', Load ''dim_payment'', Load ''dim_shipper'', Load ''dim_rating'',
        Load ''dim_voucher'', Load ''fact_orders'', Load ''dim_product_category'',
        Load ''dim_product'', Load ''fact_order_items'', Mart]
   \<and> loads_after_references [] (stages (trace (snd (etl_process seed_world))))"
proof -
  have ok: "fst (etl_process seed_world) = Inr ()"
    by code_simp
  have t0: "trace seed_world = []"
    by (simp add: seed_world_def)
  obtain evs n where e: "trace (snd (etl_process seed_world)) = trace seed_world @ evs"
      "loads_after_references [] (stages evs)"
      "case fst (etl_process seed_world) of Inl e \<Rightarrow> True | Inr u \<Rightarrow> stages evs = pipeline_stages"
    using run_follows_pipeline_stages [of seed_world] by blast
  have "stages evs = pipeline_stages"
    using e(3) ok by simp
  then show ?thesis
    using ok e(1,2) t0 by (simp add: pipeline_stages_unfold)
qed

text \<open>
  C9, as the specification words it, fails on the seeded run: \<open>fact_orders\<close> is loaded sixth,
  with \<open>dim_product_category\<close> and \<open>dim_product\<close> still to come.
\<close>

theorem fact_orders_loaded_before_product_dimensions:
  "\<not> facts_after_all_dimensions [] (stages (trace (snd (etl_process seed_world))))"
  by code_simp

section \<open>Settled destinations\<close>

lemma settled_iff:
  "settled w (d, t) \<longleftrightarrow>
     (\<exists>phys df k tb p. map_of oltp_tables d = Some phys \<and> oltp w phys = Some df
        \<and> get_unique_key t = Inr k \<and> dwh w t = Some tb
        \<and> key_position k (columns df) = Inr p
        \<and> positions k (columns tb) \<noteq> [] \<and> new_rows df tb k = [])"
proof (cases "map_of oltp_tables d")
  case None
  then show ?thesis by (simp add: settled_def)
next
  case phys: (Some phys)
  show ?thesis
  proof (cases "oltp w phys")
    case None
    then show ?thesis using phys by (simp add: settled_def)
  next
    case df: (Some df)
    show ?thesis
    proof (cases "get_unique_key t")
      case (Inl e)
      then show ?thesis using phys df by (simp add: settled_def)
    next
      case k: (Inr k)
      show ?thesis
      proof (cases "dwh w t")
        case None
        then show ?thesis using phys df k by (simp add: settled_def)
      next
        case tb: (Some tb)
        show ?thesis
          using phys df k tb
          by (cases "key_position k (columns df)") (simp_all add: settled_def)
      qed
    qed
  qed
qed

lemma settledE:
  assumes "settled w (d, t)"
  obtains phys df k tb p where "map_of oltp_tables d = Some phys" "oltp w phys = Some df"
    "get_unique_key t = Inr k" "dwh w t = Some tb" "key_position k (columns df) = Inr p"
    "positions k (columns tb) \<noteq> []" "new_rows df tb k = []"
  using assms unfolding settled_iff by blast

lemma settledI:
  assumes "map_of oltp_tables d = Some phys" "oltp w phys = Some df"
    "get_unique_key t = Inr k" "dwh w t = Some tb" "key_position k (columns df) = Inr p"
    "positions k (columns tb) \<noteq> []" "new_rows df tb k = []"
  shows "settled w (d, t)"
  using assms by (simp add: settled_def)

lemma unique_key_not_mart: "get_unique_key t = Inr k \<Longrightarrow> t \<noteq> ''dm_sales''"
  by (auto simp: get_unique_key_def)

lemma field_update_rows [simp]: "field (tb\<lparr>rows := rs\<rparr>) k = field tb k"
  by (simp add: field_def fun_eq_iff)

lemma stored_keys_append:
  "stored_keys (tb\<lparr>rows := rows tb @ extra\<rparr>) k = stored_keys tb k @ map (field tb k) extra"
  by (simp add: stored_keys_def)

lemma new_rows_empty_iff:
  "new_rows df tb k = [] \<longleftrightarrow> (\<forall>r \<in> set (rows df). field df k r \<in> set (stored_keys tb k))"
  by (auto simp: new_rows_def filter_empty_conv)

lemma new_rows_grow:
  "new_rows df tb k = [] \<Longrightarrow> new_rows df (tb\<lparr>rows := rows tb @ extra\<rparr>) k = []"
  by (auto simp: new_rows_empty_iff stored_keys_append)

lemma place_field:
  assumes "positions k tcols \<noteq> []" "key_position k dcols = Inr p"
  shows "field \<lparr>columns = tcols, rows = rs\<rparr> k (place dcols tcols r) = cell_at r p"
proof -
  obtain q qs where q: "positions k tcols = q # qs"
    using assms(1) by (cases "positions k tcols") auto
  have "q \<in> set (positions k tcols)" unfolding q by simp
  then have ql: "q < length tcols" "tcols ! q = k"
    unfolding set_positions by simp_all
  have p: "positions k dcols = [p]"
    using assms(2) by (auto simp: key_position_def split: list.splits)
  show ?thesis
    using q ql p by (simp add: field_def place_def cell_at_def)
qed

lemma field_columns_only: "columns a = columns b \<Longrightarrow> field a k = field b k"
  by (simp add: field_def fun_eq_iff)

lemma new_rows_after_append:
  assumes "positions k (columns tb) \<noteq> []" "key_position k (columns df) = Inr p"
  shows "new_rows df (tb\<lparr>rows := rows tb @ map (place (columns df) (columns tb))
                                              (new_rows df tb k)\<rparr>) k = []"
proof -
  have f: "field tb k (place (columns df) (columns tb) r) = field df k r" for r
  proof -
    have "field tb k = field \<lparr>columns = columns tb, rows = []\<rparr> k"
      by (rule field_columns_only) simp
    then show ?thesis
      using place_field [OF assms, of "[]" r] key_position_field [OF assms(2), of r] by simp
  qed
  show ?thesis
    unfolding new_rows_empty_iff stored_keys_append
  proof
    fix r assume r: "r \<in> set (rows df)"
    show "field df k r \<in> set (stored_keys tb k @
            map (field tb k) (map (place (columns df) (columns tb)) (new_rows df tb k)))"
    proof (cases "field df k r \<in> set (stored_keys tb k)")
      case True
      then show ?thesis by simp
    next
      case False
      then have "r \<in> set (new_rows df tb k)"
        using r by (simp add: new_rows_def)
      then have "field tb k (place (columns df) (columns tb) r) \<in>
              set (map (field tb k) (map (place (columns df) (columns tb)) (new_rows df tb k)))"
        by auto
      then show ?thesis using f by simp
    qed
  qed
qed

lemma process_table_passes_through:
  assumes "passes_through d"
  shows "process_table (d, t) w =
     (case map_of oltp_tables d of
        None \<Rightarrow>
          (Inl (ValueError (''Table name '' @ [CHR 0x27] @ d @ [CHR 0x27] @
                            '' not found in oltp_tables dictionary'')), w)
      | Some phys \<Rightarrow>
          (case oltp w phys of
             None \<Rightarrow> (Inl (DbError phys), emit (SrcRead phys) w)
           | Some df \<Rightarrow>
               load_data df t
                 (emit (Print (''Transform Data '' @ d @ '' Success''))
                    (emit (Print (''Extract Data '' @ phys @ '' Success''))
                       (emit (SrcRead phys) w)))))"
  using assms
  by (simp add: process_table_def passes_through_def extract_data_def transform_data_def
        split: option.splits)

lemma load_data_result:
  assumes "load_data df t w = (Inr u, w')"
  obtains k tb p where "get_unique_key t = Inr k" "dwh w t = Some tb"
    "key_position k (columns df) = Inr p" "positions k (columns tb) \<noteq> []"
    "dwh w' = (dwh w)(t \<mapsto>
        tb\<lparr>rows := rows tb @ map (place (columns df) (columns tb)) (new_rows df tb k)\<rparr>)"
    "oltp w' = oltp w"
proof -
  obtain k tb where kt: "get_unique_key t = Inr k" "dwh w t = Some tb"
    using load_data_success [OF assms] by blast
  let ?w1 = "emit (DwhRead t) w"
  let ?df' = "df\<lparr>rows := new_rows df tb k\<rparr>"
  have d1: "dwh ?w1 t = Some tb" "dwh ?w1 = dwh w" "oltp ?w1 = oltp w"
    using kt by (simp_all add: emit_def)
  from assms load_data_unfold [OF kt, of df]
  obtain w2 u2 p where ne: "positions k (columns tb) \<noteq> []"
    and p: "key_position k (columns df) = Inr p"
    and s: "to_sql ?df' t ?w1 = (Inr u2, w2)"
    and w': "w' = emit (Print (''Load Data '' @ t @ '' Success'')) w2"
    by (auto split: list.splits sum.splits prod.splits)
  have w2: "w2 = emit (DwhAppend t)
              (?w1\<lparr>dwh := (dwh ?w1)(t \<mapsto> tb\<lparr>rows := rows tb @
                 map (place (columns ?df') (columns tb)) (rows ?df')\<rparr>)\<rparr>)"
    using to_sql_existing [OF d1(1) s] .
  have "dwh w' = (dwh w)(t \<mapsto>
          tb\<lparr>rows := rows tb @ map (place (columns df) (columns tb)) (new_rows df tb k)\<rparr>)"
    unfolding w' w2 by (simp add: emit_def)
  moreover have "oltp w' = oltp w"
    unfolding w' w2 by (simp add: emit_def)
  ultimately show ?thesis using that kt p ne by blast
qed

lemma process_table_result:
  assumes "passes_through d" "process_table (d, t) w = (Inr u, w')"
  obtains phys df k tb p where "map_of oltp_tables d = Some phys" "oltp w phys = Some df"
    "get_unique_key t = Inr k" "dwh w t = Some tb"
    "key_position k (columns df) = Inr p" "positions k (columns tb) \<noteq> []"
    "dwh w' = (dwh w)(t \<mapsto>
        tb\<lparr>rows := rows tb @ map (place (columns df) (columns tb)) (new_rows df tb k)\<rparr>)"
    "oltp w' = oltp w"
proof -
  from assms(2) process_table_passes_through [OF assms(1), of t w]
  obtain phys df where src: "map_of oltp_tables d = Some phys" "oltp w phys = Some df"
    and l: "load_data df t
                 (emit (Print (''Transform Data '' @ d @ '' Success''))
                    (emit (Print (''Extract Data '' @ phys @ '' Success''))
                       (emit (SrcRead phys) w))) = (Inr u, w')"
    by (auto split: option.splits)
  let ?w3 = "emit (Print (''Transform Data '' @ d @ '' Success''))
                    (emit (Print (''Extract Data '' @ phys @ '' Success''))
                       (emit (SrcRead phys) w))"
  have w3: "dwh ?w3 = dwh w" "oltp ?w3 = oltp w" by (simp_all add: emit_def)
  from load_data_result [OF l] w3 that src show ?thesis by metis
qed

lemma process_table_settles:
  assumes "passes_through d" "process_table (d, t) w = (Inr u, w')"
  shows "settled w' (d, t)"
proof -
  from process_table_result [OF assms]
  obtain phys df k tb p where r: "map_of oltp_tables d = Some phys" "oltp w phys = Some df"
    "get_unique_key t = Inr k" "dwh w t = Some tb"
    "key_position k (columns df) = Inr p" "positions k (columns tb) \<noteq> []"
    "dwh w' = (dwh w)(t \<mapsto>
        tb\<lparr>rows := rows tb @ map (place (columns df) (columns tb)) (new_rows df tb k)\<rparr>)"
    "oltp w' = oltp w"
    by blast
  let ?tb' = "tb\<lparr>rows := rows tb @ map (place (columns df) (columns tb)) (new_rows df tb k)\<rparr>"
  have "dwh w' t = Some ?tb'" using r(7) by simp
  moreover have "positions k (columns ?tb') \<noteq> []" using r(6) by simp
  moreover have "new_rows df ?tb' k = []"
    using new_rows_after_append [OF r(6) r(5)] .
  ultimately show ?thesis
    using r(1,2,3,5,8) by (intro settledI [where df = df and tb = "?tb'"]) simp_all
qed

lemma settled_kept:
  assumes "settled w item" "oltp w' = oltp w"
    "dwh w' (snd item) = dwh w (snd item)
     \<or> (\<exists>tb extra. dwh w (snd item) = Some tb
                    \<and> dwh w' (snd item) = Some (tb\<lparr>rows := rows tb @ extra\<rparr>))"
  shows "settled w' item"
proof -
  obtain d t where item: "item = (d, t)" by (cases item)
  from assms(1) item obtain phys df k tb p where r: "map_of oltp_tables d = Some phys"
    "oltp w phys = Some df" "get_unique_key t = Inr k" "dwh w t = Some tb"
    "key_position k (columns df) = Inr p" "positions k (columns tb) \<noteq> []"
    "new_rows df tb k = []"
    by (auto elim: settledE)
  from assms(3) item r(4)
  consider "dwh w' t = Some tb" | extra where "dwh w' t = Some (tb\<lparr>rows := rows tb @ extra\<rparr>)"
    by auto
  then show ?thesis
  proof cases
    case 1
    then show ?thesis
      unfolding item using r assms(2) by (intro settledI [where df = df and tb = tb]) simp_all
  next
    case 2
    then show ?thesis
      unfolding item using r assms(2) new_rows_grow [OF r(7), of extra]
      by (intro settledI [where df = df and tb = "tb\<lparr>rows := rows tb @ extra\<rparr>"]) simp_all
  qed
qed

lemma process_table_keeps_settled:
  assumes "passes_through d" "process_table (d, t) w = (Inr u, w')" "settled w item"
  shows "settled w' item"
proof -
  from process_table_result [OF assms(1,2)]
  obtain tb extra where r: "dwh w t = Some tb"
    "dwh w' = (dwh w)(t \<mapsto> tb\<lparr>rows := rows tb @ extra\<rparr>)" "oltp w' = oltp w"
    by metis
  have "dwh w' (snd item) = dwh w (snd item)
     \<or> (\<exists>tb extra. dwh w (snd item) = Some tb
                    \<and> dwh w' (snd item) = Some (tb\<lparr>rows := rows tb @ extra\<rparr>))"
    using r(1,2) by (cases "snd item = t") auto
  then show ?thesis using settled_kept [OF assms(3) r(3)] by blast
qed

lemma settled_noop:
  assumes "passes_through d" "settled w (d, t)"
  shows "\<exists>w'. process_table (d, t) w = (Inr (), w') \<and> dwh w' = dwh w \<and> oltp w' = oltp w
              \<and> sale_seq w' = sale_seq w"
proof -
  from assms(2) obtain phys df k tb p where r: "map_of oltp_tables d = Some phys"
    "oltp w phys = Some df" "get_unique_key t = Inr k" "dwh w t = Some tb"
    "key_position k (columns df) = Inr p" "positions k (columns tb) \<noteq> []"
    "new_rows df tb k = []"
    by (auto elim: settledE)
  let ?w3 = "emit (Print (''Transform Data '' @ d @ '' Success''))
                    (emit (Print (''Extract Data '' @ phys @ '' Success''))
                       (emit (SrcRead phys) w))"
  have w3: "dwh ?w3 t = Some tb" using r(4) by (simp add: emit_def)
  obtain q qs where q: "positions k (columns tb) = q # qs"
    using r(6) by (cases "positions k (columns tb)") auto
  have "to_sql (df\<lparr>rows := []\<rparr>) t (emit (DwhRead t) ?w3) =
          (Inr (), emit (DwhAppend t) (emit (DwhRead t) ?w3))"
    using r(4) by (simp add: to_sql_def emit_def)
  then have "load_data df t ?w3 =
          (Inr (), emit (Print (''Load Data '' @ t @ '' Success''))
                     (emit (DwhAppend t) (emit (DwhRead t) ?w3)))"
    using load_data_unfold [OF r(3) w3, of df] q r(5,7) by simp
  then have "process_table (d, t) w =
          (Inr (), emit (Print (''Load Data '' @ t @ '' Success''))
                     (emit (DwhAppend t) (emit (DwhRead t) ?w3)))"
    using process_table_passes_through [OF assms(1), of t w] r(1,2) by simp
  then show ?thesis by (simp add: emit_def)
qed

lemma process_tables_settle:
  assumes "\<forall>item \<in> set items. passes_through (fst item)"
    "process_tables items w = (Inr u, w')"
  shows "(\<forall>item \<in> set items. settled w' item) \<and> (\<forall>item. settled w item \<longrightarrow> settled w' item)
         \<and> oltp w' = oltp w"
  using assms
proof (induction items arbitrary: w)
  case Nil
  then show ?case by simp
next
  case (Cons item items)
  obtain d t where item: "item = (d, t)" by (cases item)
  have pt: "passes_through d" using Cons.prems(1) item by simp
  obtain r w1 where p: "process_table (d, t) w = (r, w1)" by (cases "process_table (d, t) w")
  obtain u1 where r: "r = Inr u1"
    using Cons.prems(2) item p by (cases r) auto
  have rest: "process_tables items w1 = (Inr u, w')"
    using Cons.prems(2) item p r by simp
  have ih: "(\<forall>item \<in> set items. settled w' item)"
      "\<And>item. settled w1 item \<Longrightarrow> settled w' item" "oltp w' = oltp w1"
    using Cons.IH [OF _ rest] Cons.prems(1) by auto
  have s1: "settled w1 (d, t)"
    using process_table_settles [OF pt] p r by simp
  have k1: "\<And>it. settled w it \<Longrightarrow> settled w1 it"
    using process_table_keeps_settled [OF pt] p r by blast
  have o1: "oltp w1 = oltp w"
    using process_table_result [OF pt] p r by metis
  show ?case
    using ih s1 k1 o1 item by auto
qed

lemma settled_same:
  assumes "oltp w' = oltp w" "dwh w' = dwh w" "settled w item"
  shows "settled w' item"
proof -
  have "dwh w' (snd item) = dwh w (snd item)"
    using assms(2) by simp
  then show ?thesis
    using settled_kept [OF assms(3) assms(1)] by blast
qed

lemma process_tables_noop:
  assumes "\<forall>item \<in> set items. passes_through (fst item)"
    "\<forall>item \<in> set items. settled w item"
  shows "\<exists>w'. process_tables items w = (Inr (), w') \<and> dwh w' = dwh w \<and> oltp w' = oltp w
              \<and> sale_seq w' = sale_seq w"
  using assms
proof (induction items arbitrary: w)
  case Nil
  then show ?case by simp
next
  case (Cons item items)
  obtain d t where item: "item = (d, t)" by (cases item)
  have pt: "passes_through d" using Cons.prems(1) item by simp
  have "settled w (d, t)" using Cons.prems(2) item by simp
  then obtain w1 where w1: "process_table (d, t) w = (Inr (), w1)" "dwh w1 = dwh w"
      "oltp w1 = oltp w" "sale_seq w1 = sale_seq w"
    using settled_noop [OF pt] by blast
  have "\<forall>item \<in> set items. settled w1 item"
    using Cons.prems(2) settled_same [OF w1(3,2)] by simp
  then obtain w' where w': "process_tables items w1 = (Inr (), w')" "dwh w' = dwh w1"
      "oltp w' = oltp w1" "sale_seq w' = sale_seq w1"
    using Cons.IH [of w1] Cons.prems(1) by auto
  show ?case
    using item w1 w' by simp
qed

lemma warehouse_tables_pass_through: "\<forall>item \<in> set warehouse_tables. passes_through (fst item)"
  by (simp add: warehouse_tables_def passes_through_def dimension_columns_def)

section \<open>Schema creation and the mart, as steps\<close>

lemma create_table_dwh:
  "dwh (create_table_if_not_exists name cols w) =
     (case dwh w name of None \<Rightarrow> (dwh w)(name \<mapsto> \<lparr>columns = cols, rows = []\<rparr>)
                       | Some tb \<Rightarrow> dwh w)"
  by (simp add: create_table_if_not_exists_def emit_def split: option.splits)

lemma create_each_existing:
  "\<forall>ddl \<in> set ddls. dwh w (fst ddl) \<noteq> None \<Longrightarrow> dwh (create_each ddls w) = dwh w"
proof (induction ddls arbitrary: w)
  case Nil
  then show ?case by simp
next
  case (Cons ddl ddls)
  obtain name cols where ddl: "ddl = (name, cols)" by (cases ddl)
  have 1: "dwh (create_table_if_not_exists name cols w) = dwh w"
    using Cons.prems ddl by (auto simp: create_table_dwh)
  then have "\<forall>ddl \<in> set ddls. dwh (create_table_if_not_exists name cols w) (fst ddl) \<noteq> None"
    using Cons.prems by simp
  then show ?case using Cons.IH 1 ddl by simp
qed

lemma mart_query_cong:
  "(\<And>t. t \<noteq> ''dm_sales'' \<Longrightarrow> db' t = db t) \<Longrightarrow> mart_query db' = mart_query db"
  by (simp add: mart_query_def table_or_empty_def)

lemma mart_sources_ok_cong:
  "(\<And>t. t \<noteq> ''dm_sales'' \<Longrightarrow> db' t = db t) \<Longrightarrow> mart_sources_ok db' = mart_sources_ok db"
  by (simp add: mart_sources_ok_def mart_sources_def)

lemma length_number_rows [simp]: "length (number_rows cols s rs) = length rs"
  by (simp add: number_rows_def)

text \<open>When the mart step succeeds: what it needs and what it leaves.\<close>

lemma mart_result:
  assumes "create_and_insert_dm_sales w = (Inr u, w')"
  obtains t where
    "dwh (create_dm_sales w) ''dm_sales'' = Some t"
    "mart_sources_ok (dwh w)" "list_all (\<lambda>c. c \<in> set (columns t)) insert_columns"
    "dwh w' = (dwh w)(''dm_sales'' \<mapsto>
        t\<lparr>rows := number_rows (columns t) (sale_seq (create_dm_sales w)) (mart_query (dwh w))\<rparr>)"
    "oltp w' = oltp w"
proof -
  let ?w0 = "create_dm_sales w"
  have d0: "\<And>x. x \<noteq> ''dm_sales'' \<Longrightarrow> dwh ?w0 x = dwh w x" and o0: "oltp ?w0 = oltp w"
    by (simp_all add: create_dm_sales_def emit_def split: option.splits)
  have q0: "mart_query (dwh ?w0) = mart_query (dwh w)"
    and m0: "mart_sources_ok (dwh ?w0) = mart_sources_ok (dwh w)"
    using d0 by (rule mart_query_cong, simp) (rule mart_sources_ok_cong, simp add: d0)
  obtain u0 w1 where i: "insert_dm_sales ?w0 = (Inr u0, w1)"
    and w': "w' = emit (Print ''Data Mart Has Create Success'') w1"
    using assms by (auto simp: create_and_insert_dm_sales_def split: prod.splits sum.splits)
  obtain t where t: "dwh ?w0 ''dm_sales'' = Some t"
    and ok: "mart_sources_ok (dwh ?w0)" "list_all (\<lambda>c. c \<in> set (columns t)) insert_columns"
    and w1: "w1 = emit (DwhExec ''insert_dm_sales'')
               (?w0\<lparr>dwh := (dwh ?w0)(''dm_sales'' \<mapsto>
                      t\<lparr>rows := number_rows (columns t) (sale_seq ?w0) (mart_query (dwh ?w0))\<rparr>),
                    sale_seq := sale_seq ?w0 + length (mart_query (dwh ?w0))\<rparr>)"
    using i by (auto simp: insert_dm_sales_def Let_def split: option.splits if_splits)
  have "dwh w' = (dwh ?w0)(''dm_sales'' \<mapsto>
        t\<lparr>rows := number_rows (columns t) (sale_seq ?w0) (mart_query (dwh w))\<rparr>)"
    unfolding w' w1 by (simp add: emit_def q0)
  moreover have "(dwh ?w0)(''dm_sales'' \<mapsto> x) = (dwh w)(''dm_sales'' \<mapsto> x)" for x
    using d0 by (auto simp: fun_eq_iff)
  moreover have "oltp w' = oltp w"
    unfolding w' w1 by (simp add: emit_def o0)
  ultimately show ?thesis using that t ok m0 by simp
qed

lemma mart_again:
  assumes "create_and_insert_dm_sales wa = (Inr u, w1)"
    "\<And>t. t \<noteq> ''dm_sales'' \<Longrightarrow> dwh wb t = dwh w1 t" "dwh wb ''dm_sales'' = dwh w1 ''dm_sales''"
  shows "\<exists>w2 u2. create_and_insert_dm_sales wb = (Inr u2, w2)"
proof -
  from mart_result [OF assms(1)]
  obtain t where t: "dwh (create_dm_sales wa) ''dm_sales'' = Some t"
    "mart_sources_ok (dwh wa)" "list_all (\<lambda>c. c \<in> set (columns t)) insert_columns"
    "dwh w1 = (dwh wa)(''dm_sales'' \<mapsto>
        t\<lparr>rows := number_rows (columns t) (sale_seq (create_dm_sales wa)) (mart_query (dwh wa))\<rparr>)"
    by blast
  let ?t1 = "t\<lparr>rows := number_rows (columns t) (sale_seq (create_dm_sales wa)) (mart_query (dwh wa))\<rparr>"
  have b: "dwh wb ''dm_sales'' = Some ?t1"
    using assms(3) t(4) by simp
  have "\<And>x. x \<noteq> ''dm_sales'' \<Longrightarrow> dwh wb x = dwh wa x"
    using assms(2) t(4) by simp
  then have ok: "mart_sources_ok (dwh wb)"
    using t(2) mart_sources_ok_cong [of "dwh wb" "dwh wa"] by simp
  have c: "create_dm_sales wb = emit (DwhExec ''CREATE TABLE IF NOT EXISTS dm_sales'') wb"
    using b by (simp add: create_dm_sales_def)
  have "fst (insert_dm_sales (create_dm_sales wb)) = Inr ()"
    unfolding c using b ok t(3) by (simp add: insert_dm_sales_def emit_def Let_def)
  then show ?thesis
    by (cases "insert_dm_sales (create_dm_sales wb)")
       (auto simp: create_and_insert_dm_sales_def)
qed

section \<open>Running the pipeline again\<close>

lemma ddl_names_are_targets:
  "\<forall>ddl \<in> set ddl_statements. \<exists>item \<in> set warehouse_tables. snd item = fst ddl"
  by (simp add: ddl_statements_def warehouse_tables_def)

lemma settled_exists: "settled w item \<Longrightarrow> dwh w (snd item) \<noteq> None"
  by (cases item) (auto elim: settledE)

lemma etl_process_steps:
  assumes "etl_process w = (Inr u, w')"
  obtains u0 wa where
    "process_tables warehouse_tables (create_each ddl_statements w) = (Inr u0, wa)"
    "create_and_insert_dm_sales wa = (Inr u, w')"
  using assms
  by (auto simp: etl_process_def create_tables_def split: prod.splits sum.splits)

lemma first_run_settles:
  assumes "etl_process w = (Inr u, w1)"
  shows "(\<forall>item \<in> set warehouse_tables. settled w1 item) \<and> oltp w1 = oltp w"
proof -
  let ?wa0 = "create_each ddl_statements w"
  from etl_process_steps [OF assms]
  obtain u0 wa where p: "process_tables warehouse_tables ?wa0 = (Inr u0, wa)"
    and m: "create_and_insert_dm_sales wa = (Inr u, w1)"
    by blast
  have sa: "\<forall>item \<in> set warehouse_tables. settled wa item" and oa: "oltp wa = oltp ?wa0"
    using process_tables_settle [OF warehouse_tables_pass_through p] by simp_all
  have o0: "oltp ?wa0 = oltp w"
    using create_each_frame [of ddl_statements w] by blast
  from mart_result [OF m] obtain x where
    d1: "dwh w1 = (dwh wa)(''dm_sales'' \<mapsto> x)" and o1: "oltp w1 = oltp wa"
    by metis
  have "settled w1 item" if "item \<in> set warehouse_tables" for item
  proof -
    have s: "settled wa item" using sa that by simp
    obtain d t where item: "item = (d, t)" by (cases item)
    have "t \<noteq> ''dm_sales''"
      using s item by (auto elim!: settledE dest: unique_key_not_mart)
    then have "dwh w1 (snd item) = dwh wa (snd item)"
      using d1 item by simp
    then show ?thesis using settled_kept [OF s o1] by blast
  qed
  then show ?thesis using o1 oa o0 by simp
qed

lemma rerun_keeps_tables:
  assumes "etl_process w = (Inr u, w1)"
  shows "\<exists>w2. etl_process w1 = (Inr (), w2) \<and> oltp w2 = oltp w1
              \<and> (\<forall>t. t \<noteq> ''dm_sales'' \<longrightarrow> dwh w2 t = dwh w1 t)"
proof -
  from etl_process_steps [OF assms]
  obtain u0 wa where m: "create_and_insert_dm_sales wa = (Inr u, w1)"
    by blast
  have s1: "\<forall>item \<in> set warehouse_tables. settled w1 item"
    using first_run_settles [OF assms] by simp
  let ?wb0 = "create_each ddl_statements w1"
  have "\<forall>ddl \<in> set ddl_statements. dwh w1 (fst ddl) \<noteq> None"
    using ddl_names_are_targets s1 settled_exists by metis
  then have db0: "dwh ?wb0 = dwh w1"
    by (rule create_each_existing)
  have ob0: "oltp ?wb0 = oltp w1"
    using create_each_frame [of ddl_statements w1] by blast
  have "\<forall>item \<in> set warehouse_tables. settled ?wb0 item"
    using s1 settled_same [OF ob0 db0] by blast
  then obtain wb where wb: "process_tables warehouse_tables ?wb0 = (Inr (), wb)"
      "dwh wb = dwh ?wb0" "oltp wb = oltp ?wb0"
    using process_tables_noop [OF warehouse_tables_pass_through] by blast
  have dwb: "dwh wb = dwh w1" using wb(2) db0 by simp
  obtain w2 u2 where m2: "create_and_insert_dm_sales wb = (Inr u2, w2)"
    using mart_again [OF m, of wb] dwb by auto
  from mart_result [OF m2] obtain x where
    d2: "dwh w2 = (dwh wb)(''dm_sales'' \<mapsto> x)" and o2: "oltp w2 = oltp wb"
    by metis
  have "etl_process w1 = (Inr (), w2)"
    using wb(1) m2 by (simp add: etl_process_def create_tables_def)
  moreover have "oltp w2 = oltp w1" using o2 wb(3) ob0 by simp
  moreover have "\<forall>t. t \<noteq> ''dm_sales'' \<longrightarrow> dwh w2 t = dwh w1 t"
    using d2 dwb by simp
  ultimately show ?thesis by blast
qed

text \<open>
  C7. After a run that succeeded, the source is as it was and every loop item is settled:
  each source row's key is among the keys of its destination, so the deduplication step
  of a second run leaves nothing to append. The second run succeeds and every table other
  than the mart is left exactly as the first run left it.
\<close>

theorem rerun_appends_nothing:
  assumes "etl_process w = (Inr u, w1)"
  shows "oltp w1 = oltp w \<and> list_all (settled w1) warehouse_tables
         \<and> (\<exists>w2. etl_process w1 = (Inr (), w2) \<and> oltp w2 = oltp w1
                  \<and> (\<forall>t. t \<noteq> ''dm_sales'' \<longrightarrow> dwh w2 t = dwh w1 t))"
  using first_run_settles [OF assms] rerun_keeps_tables [OF assms]
  by (simp add: list_all_iff)

theorem rerun_appends_nothing_witness:
  "etl_process seed_world = (Inr (), snd (etl_process seed_world))
   \<and> fst (etl_process (snd (etl_process seed_world))) = Inr ()
   \<and> map_option rows (dwh (snd (etl_process (snd (etl_process seed_world)))) ''dim_user'') =
       Some [[IntV 1, StrV ''Ana'', StrV ''Lee'', StrV ''F'', Null, StrV ''1990-01-01'',
              StrV ''2020-01-01'']]
   \<and> map_option rows (dwh (snd (etl_process (snd (etl_process seed_world)))) ''fact_orders'') =
       Some [[IntV 10, StrV ''2024-01-01'', IntV 1, IntV 2, IntV 3, IntV 100, Null, Null,
              IntV 100, IntV 4]]
   \<and> map_option rows
        (dwh (snd (etl_process (snd (etl_process seed_world)))) ''fact_order_items'') =
       Some [[IntV 20, IntV 10, IntV 7, IntV 2, Null, Null, IntV 50, IntV 100]]
   \<and> list_all (settled (snd (etl_process seed_world))) warehouse_tables"
proof -
  let ?w1 = "snd (etl_process seed_world)"
  have "fst (etl_process seed_world) = Inr ()"
    by code_simp
  then have a: "etl_process seed_world = (Inr (), ?w1)"
    by (simp add: prod_eq_iff)
  have b: "map_option rows (dwh ?w1 ''dim_user'') =
       Some [[IntV 1, StrV ''Ana'', StrV ''Lee'', StrV ''F'', Null, StrV ''1990-01-01'',
              StrV ''2020-01-01'']]"
    by code_simp
  have c: "map_option rows (dwh ?w1 ''fact_orders'') =
       Some [[IntV 10, StrV ''2024-01-01'', IntV 1, IntV 2, IntV 3, IntV 100, Null, Null,
              IntV 100, IntV 4]]"
    by code_simp
  have d: "map_option rows (dwh ?w1 ''fact_order_items'') =
       Some [[IntV 20, IntV 10, IntV 7, IntV 2, Null, Null, IntV 50, IntV 100]]"
    by code_simp
  from rerun_appends_nothing [OF a]
  obtain w2 where s: "list_all (settled ?w1) warehouse_tables"
    and r: "etl_process ?w1 = (Inr (), w2)"
    and k: "\<forall>t. t \<noteq> ''dm_sales'' \<longrightarrow> dwh w2 t = dwh ?w1 t"
    by blast
  have w2: "snd (etl_process ?w1) = w2" "fst (etl_process ?w1) = Inr ()"
    using r by simp_all
  have "dwh w2 ''dim_user'' = dwh ?w1 ''dim_user''"
       "dwh w2 ''fact_orders'' = dwh ?w1 ''fact_orders''"
       "dwh w2 ''fact_order_items'' = dwh ?w1 ''fact_order_items''"
    using k by simp_all
  then show ?thesis
    using a b c d s w2 by simp
qed

section \<open>The mart is rebuilt, not extended\<close>

text \<open>
  C8. When the mart step returns, \<open>dm_sales\<close> holds exactly the rows the join query yields
  on the warehouse, each with a fresh \<open>sale_id\<close>, whatever \<open>dm_sales\<close> held before. After two
  runs in a row the mart holds the rows of one evaluation of the query, as many as the
  query yields, and the query yields after the second run what it yielded after the first.
\<close>

theorem mart_rebuild_replaces:
  "(\<forall>u w'. create_and_insert_dm_sales w = (Inr u, w') \<longrightarrow>
      (\<exists>t s. dwh w' ''dm_sales'' = Some t
             \<and> rows t = number_rows (columns t) s (mart_query (dwh w))))
   \<and> (\<forall>u1 w1 u2 w2. etl_process w = (Inr u1, w1) \<longrightarrow> etl_process w1 = (Inr u2, w2) \<longrightarrow>
        (\<exists>t s. dwh w2 ''dm_sales'' = Some t
               \<and> rows t = number_rows (columns t) s (mart_query (dwh w2))
               \<and> length (rows t) = length (mart_query (dwh w2))
               \<and> mart_query (dwh w2) = mart_query (dwh w1)))"
proof (intro conjI allI impI)
  fix u w'
  assume m: "create_and_insert_dm_sales w = (Inr u, w')"
  from mart_result [OF m] obtain t where
    "dwh w' = (dwh w)(''dm_sales'' \<mapsto>
        t\<lparr>rows := number_rows (columns t) (sale_seq (create_dm_sales w)) (mart_query (dwh w))\<rparr>)"
    by metis
  then have "dwh w' ''dm_sales'' = Some
        (t\<lparr>rows := number_rows (columns t) (sale_seq (create_dm_sales w)) (mart_query (dwh w))\<rparr>)"
    by simp
  then show "\<exists>t s. dwh w' ''dm_sales'' = Some t
             \<and> rows t = number_rows (columns t) s (mart_query (dwh w))"
    by (intro exI [of _ "t\<lparr>rows := number_rows (columns t) (sale_seq (create_dm_sales w))
                                    (mart_query (dwh w))\<rparr>"]
              exI [of _ "sale_seq (create_dm_sales w)"]) simp
next
  fix u1 w1 u2 w2
  assume r1: "etl_process w = (Inr u1, w1)" and r2: "etl_process w1 = (Inr u2, w2)"
  from etl_process_steps [OF r2] obtain wb where m: "create_and_insert_dm_sales wb = (Inr u2, w2)"
    by blast
  from mart_result [OF m] obtain t where
    d: "dwh w2 = (dwh wb)(''dm_sales'' \<mapsto>
        t\<lparr>rows := number_rows (columns t) (sale_seq (create_dm_sales wb)) (mart_query (dwh wb))\<rparr>)"
    by metis
  let ?t = "t\<lparr>rows := number_rows (columns t) (sale_seq (create_dm_sales wb))
                        (mart_query (dwh wb))\<rparr>"
  have q: "mart_query (dwh w2) = mart_query (dwh wb)"
    by (rule mart_query_cong) (simp add: d)
  have "\<forall>t. t \<noteq> ''dm_sales'' \<longrightarrow> dwh w2 t = dwh w1 t"
    using rerun_keeps_tables [OF r1] r2 by auto
  then have q1: "mart_query (dwh w2) = mart_query (dwh w1)"
    by (intro mart_query_cong) simp
  have "dwh w2 ''dm_sales'' = Some ?t" using d by simp
  moreover have "rows ?t = number_rows (columns ?t) (sale_seq (create_dm_sales wb))
                             (mart_query (dwh w2))"
    using q by simp
  moreover have "length (rows ?t) = length (mart_query (dwh w2))"
    using q by simp
  ultimately show "\<exists>t s. dwh w2 ''dm_sales'' = Some t
               \<and> rows t = number_rows (columns t) s (mart_query (dwh w2))
               \<and> length (rows t) = length (mart_query (dwh w2))
               \<and> mart_query (dwh w2) = mart_query (dwh w1)"
    using q1 by blast
qed

theorem mart_rebuild_replaces_witness:
  "etl_process voucher_world = (Inr (), snd (etl_process voucher_world))
   \<and> etl_process (snd (etl_process voucher_world)) =
       (Inr (), snd (etl_process (snd (etl_process voucher_world))))
   \<and> mart_query (dwh (snd (etl_process voucher_world))) =
       [[IntV 10, StrV ''2024-01-01'', IntV 1, StrV ''Ana Lee'', StrV ''card'', StrV ''jne'',
         IntV 100, Null, StrV ''new'', IntV 95, IntV 20, IntV 2, IntV 7, StrV ''pen'', IntV 8,
         StrV ''office'']]
   \<and> map_option (\<lambda>t. length (rows t))
        (dwh (snd (etl_process (snd (etl_process voucher_world)))) ''dm_sales'') = Some 1
   \<and> create_and_insert_dm_sales (snd (etl_process voucher_world)) =
       (Inr (), snd (create_and_insert_dm_sales (snd (etl_process voucher_world))))
   \<and> map_option (\<lambda>t. length (rows t))
        (dwh (snd (create_and_insert_dm_sales (snd (etl_process voucher_world)))) ''dm_sales'')
       = Some 1"
proof -
  let ?w1 = "snd (etl_process voucher_world)"
  let ?w2 = "snd (etl_process ?w1)"
  let ?w3 = "snd (create_and_insert_dm_sales ?w1)"
  have "fst (etl_process voucher_world) = Inr ()"
    by code_simp
  then have a: "etl_process voucher_world = (Inr (), ?w1)"
    by (simp add: prod_eq_iff)
  have "fst (etl_process ?w1) = Inr ()"
    by code_simp
  then have b: "etl_process ?w1 = (Inr (), ?w2)"
    by (simp add: prod_eq_iff)
  have c: "mart_query (dwh ?w1) =
       [[IntV 10, StrV ''2024-01-01'', IntV 1, StrV ''Ana Lee'', StrV ''card'', StrV ''jne'',
         IntV 100, Null, StrV ''new'', IntV 95, IntV 20, IntV 2, IntV 7, StrV ''pen'', IntV 8,
         StrV ''office'']]"
    by code_simp
  have "fst (create_and_insert_dm_sales ?w1) = Inr ()"
    by code_simp
  then have d: "create_and_insert_dm_sales ?w1 = (Inr (), ?w3)"
    by (simp add: prod_eq_iff)
  note T = mart_rebuild_replaces [of voucher_world]
  from T [THEN conjunct2, rule_format, OF a b]
  obtain t s where t: "dwh ?w2 ''dm_sales'' = Some t"
      "length (rows t) = length (mart_query (dwh ?w2))"
      "mart_query (dwh ?w2) = mart_query (dwh ?w1)"
    by blast
  have e: "map_option (\<lambda>t. length (rows t)) (dwh ?w2 ''dm_sales'') = Some 1"
    using t c by simp
  from mart_rebuild_replaces [of ?w1, THEN conjunct1, rule_format, OF d]
  obtain t' s' where t': "dwh ?w3 ''dm_sales'' = Some t'"
      "rows t' = number_rows (columns t') s' (mart_query (dwh ?w1))"
    by blast
  have f: "map_option (\<lambda>t. length (rows t)) (dwh ?w3 ''dm_sales'') = Some 1"
    using t' c by simp
  from a b c d e f show ?thesis by blast
qed

section \<open>One merge\<close>
















section \<open>Cells of a column through projection\<close>








section \<open>The joins of fact assembly\<close>






end
